theory Spec2Isabelle
  imports Complex_Main "HOL-Library.AList" "HOL-Library.Char_ord" "HOL-Library.List_Lexorder"
begin

section \<open>Python values used by pyqsmod\<close>

text \<open>
  The model follows \<^verbatim>\<open>pyqsmod.py\<close> function by function. Python raises
  exceptions where HOL would return an unspecified value, so every operation that can
  raise returns \<open>py_error + 'a\<close>, with \<open>Inl\<close> for the exception. Strings are byte
  strings (\<open>char list\<close>); the character classes of the regular expressions are the
  ASCII part of Python 3's classes.
\<close>

datatype py_error =
  AttributeError | KeyError | IndexError | ValueError | TypeError
| ZeroDivisionError | StopIteration | OverflowError

definition bindE :: "py_error + 'a \<Rightarrow> ('a \<Rightarrow> py_error + 'b) \<Rightarrow> py_error + 'b" where
  "bindE m f = (case m of Inl e \<Rightarrow> Inl e | Inr v \<Rightarrow> f v)"

definition bsl :: char where
  "bsl = CHR 0x5C"

definition nl :: char where
  "nl = CHR 0x0A"

subsection \<open>Strings: find, rfind, slices, indexing, split\<close>

fun startswith :: "string \<Rightarrow> string \<Rightarrow> bool" where
  "startswith s [] = True"
| "startswith [] (p # ps) = False"
| "startswith (x # xs) (p # ps) = (x = p \<and> startswith xs ps)"

text \<open>\<^verbatim>\<open>s.find(sub)\<close>: the lowest index where \<open>sub\<close> starts, or \<open>-1\<close>.\<close>

fun find_from :: "string \<Rightarrow> string \<Rightarrow> int \<Rightarrow> int" where
  "find_from sub [] i = (if sub = [] then i else - 1)"
| "find_from sub (x # xs) i =
     (if startswith (x # xs) sub then i else find_from sub xs (i + 1))"

definition py_find :: "string \<Rightarrow> string \<Rightarrow> int" where
  "py_find s sub = find_from sub s 0"

text \<open>\<^verbatim>\<open>s.rfind(sub)\<close>: the highest index where \<open>sub\<close> starts, or \<open>-1\<close>.\<close>

fun rfind_from :: "string \<Rightarrow> string \<Rightarrow> int \<Rightarrow> int \<Rightarrow> int" where
  "rfind_from sub [] i found = (if sub = [] then i else found)"
| "rfind_from sub (x # xs) i found =
     rfind_from sub xs (i + 1) (if startswith (x # xs) sub then i else found)"

definition py_rfind :: "string \<Rightarrow> string \<Rightarrow> int" where
  "py_rfind s sub = rfind_from sub s 0 (- 1)"

text \<open>
  A slice bound: negative bounds count from the end, and every bound is clamped to
  \<open>[0, len]\<close>. Slices never raise.
\<close>

definition slice_bound :: "nat \<Rightarrow> int \<Rightarrow> nat" where
  "slice_bound n i =
     (if i < 0 then nat (max 0 (int n + i)) else min n (nat i))"

definition py_slice :: "'a list \<Rightarrow> int \<Rightarrow> int \<Rightarrow> 'a list" where
  "py_slice s a b =
     (let lo = slice_bound (length s) a; hi = slice_bound (length s) b
      in take (hi - lo) (drop lo s))"

text \<open>\<^verbatim>\<open>s[i]\<close>: IndexError outside \<open>[-len, len)\<close>.\<close>

definition py_index :: "'a list \<Rightarrow> int \<Rightarrow> py_error + 'a" where
  "py_index s i =
     (let n = int (length s); j = (if i < 0 then n + i else i)
      in if 0 \<le> j \<and> j < n then Inr (s ! nat j) else Inl IndexError)"

text \<open>\<^verbatim>\<open>s.split(c)\<close> for a one-character separator.\<close>

fun py_split :: "char \<Rightarrow> string \<Rightarrow> string list" where
  "py_split c [] = [[]]"
| "py_split c (x # xs) =
     (if x = c then [] # py_split c xs
      else (case py_split c xs of
              [] \<Rightarrow> [[x]]
            | w # ws \<Rightarrow> (x # w) # ws))"

subsection \<open>Character classes and \<^verbatim>\<open>int()\<close>\<close>

definition is_digit :: "char \<Rightarrow> bool" where
  "is_digit c = (let n = (of_char c :: nat) in 48 \<le> n \<and> n \<le> 57)"

definition is_space :: "char \<Rightarrow> bool" where
  "is_space c =
     (let n = (of_char c :: nat) in (9 \<le> n \<and> n \<le> 13) \<or> (28 \<le> n \<and> n \<le> 32))"

definition is_word :: "char \<Rightarrow> bool" where
  "is_word c =
     (let n = (of_char c :: nat)
      in (48 \<le> n \<and> n \<le> 57) \<or> (65 \<le> n \<and> n \<le> 90) \<or> (97 \<le> n \<and> n \<le> 122) \<or> n = 95)"

text \<open>
  \<open>is_space\<close> is the class \<^verbatim>\<open>\s\<close> of the patterns, which has the separators
  0x1C to 0x1F. \<^verbatim>\<open>int()\<close> skips less: around the digits of an ASCII string it skips
  the blank and the characters 0x09 to 0x0D only.
\<close>

definition is_int_space :: "char \<Rightarrow> bool" where
  "is_int_space c = (let n = (of_char c :: nat) in (9 \<le> n \<and> n \<le> 13) \<or> n = 32)"

definition strip :: "string \<Rightarrow> string" where
  "strip s = rev (dropWhile is_int_space (rev (dropWhile is_int_space s)))"

fun digits_ok :: "string \<Rightarrow> bool" where
  "digits_ok [] = False"
| "digits_ok [c] = is_digit c"
| "digits_ok (c # d # cs) =
     (if is_digit c
      then (if d = CHR ''_'' then digits_ok cs else digits_ok (d # cs))
      else False)"

definition digits_val :: "string \<Rightarrow> int" where
  "digits_val s =
     foldl (\<lambda>acc c. 10 * acc + (int (of_char c) - 48)) 0 (filter is_digit s)"

text \<open>
  \<^verbatim>\<open>int(s)\<close> on a string, base 10: the whitespace of \<open>is_int_space\<close> around the
  number is skipped, one sign is allowed, digits may be separated by single
  underscores; anything else is a ValueError.
\<close>

definition py_int :: "string \<Rightarrow> py_error + int" where
  "py_int s =
     (case strip s of
        [] \<Rightarrow> Inl ValueError
      | c # cs \<Rightarrow>
          if c = CHR ''-'' then (if digits_ok cs then Inr (- digits_val cs) else Inl ValueError)
          else if c = CHR ''+'' then (if digits_ok cs then Inr (digits_val cs) else Inl ValueError)
          else if digits_ok (c # cs) then Inr (digits_val (c # cs)) else Inl ValueError)"

subsection \<open>Regular expressions\<close>

text \<open>
  The patterns of the program use one-character classes with the greedy quantifiers
  \<^verbatim>\<open>?\<close>, \<^verbatim>\<open>*\<close>, \<^verbatim>\<open>+\<close>, and capturing groups that are not nested. A pattern
  is a list of items; \<open>re_match\<close> is the backtracking matcher of \<^verbatim>\<open>re\<close>: a greedy
  quantifier first tries to take one more character and falls back to the rest of the
  pattern when that fails. It returns the consumed characters with the group marks.
\<close>

datatype cclass = Lit char | Digit | Space | NonSpace | Word | NotBackslash | Dot

datatype quant = One | Opt | Star | Plus

datatype item = Ch cclass quant | GOpen | GClose

datatype tok = TChar char | TOpen | TClose

fun cmatch :: "cclass \<Rightarrow> char \<Rightarrow> bool" where
  "cmatch (Lit a) c = (c = a)"
| "cmatch Digit c = is_digit c"
| "cmatch Space c = is_space c"
| "cmatch NonSpace c = (\<not> is_space c)"
| "cmatch Word c = is_word c"
| "cmatch NotBackslash c = (c \<noteq> bsl)"
| "cmatch Dot c = (c \<noteq> nl)"

fun re_match :: "item list \<Rightarrow> string \<Rightarrow> tok list option" where
  "re_match [] s = Some []"
| "re_match (GOpen # r) s = map_option ((#) TOpen) (re_match r s)"
| "re_match (GClose # r) s = map_option ((#) TClose) (re_match r s)"
| "re_match (Ch c One # r) [] = None"
| "re_match (Ch c One # r) (x # xs) =
     (if cmatch c x then map_option ((#) (TChar x)) (re_match r xs) else None)"
| "re_match (Ch c Opt # r) [] = re_match r []"
| "re_match (Ch c Opt # r) (x # xs) =
     (if cmatch c x
      then (case re_match r xs of
              Some t \<Rightarrow> Some (TChar x # t)
            | None \<Rightarrow> re_match r (x # xs))
      else re_match r (x # xs))"
| "re_match (Ch c Star # r) [] = re_match r []"
| "re_match (Ch c Star # r) (x # xs) =
     (if cmatch c x
      then (case re_match (Ch c Star # r) xs of
              Some t \<Rightarrow> Some (TChar x # t)
            | None \<Rightarrow> re_match r (x # xs))
      else re_match r (x # xs))"
| "re_match (Ch c Plus # r) [] = None"
| "re_match (Ch c Plus # r) (x # xs) =
     (if cmatch c x then map_option ((#) (TChar x)) (re_match (Ch c Star # r) xs) else None)"

text \<open>\<^verbatim>\<open>regex.search(s)\<close>: the match at the leftmost position that has one.\<close>

fun re_search :: "item list \<Rightarrow> string \<Rightarrow> tok list option" where
  "re_search r [] = re_match r []"
| "re_search r (x # xs) =
     (case re_match r (x # xs) of Some t \<Rightarrow> Some t | None \<Rightarrow> re_search r xs)"

fun in_group :: "tok list \<Rightarrow> string" where
  "in_group [] = []"
| "in_group (TChar c # ts) = c # in_group ts"
| "in_group (TOpen # ts) = in_group ts"
| "in_group (TClose # ts) = []"

fun groups_of :: "tok list \<Rightarrow> string list" where
  "groups_of [] = []"
| "groups_of (TOpen # ts) = in_group ts # groups_of ts"
| "groups_of (TChar c # ts) = groups_of ts"
| "groups_of (TClose # ts) = groups_of ts"

definition lits :: "string \<Rightarrow> item list" where
  "lits s = map (\<lambda>c. Ch (Lit c) One) s"

text \<open>\<^verbatim>\<open>regex.search(s).group(1)\<close>; a failed search gives \<open>None\<close>, whose
  \<^verbatim>\<open>.group\<close> raises AttributeError.\<close>

definition search_group1 :: "item list \<Rightarrow> string \<Rightarrow> py_error + string" where
  "search_group1 r s =
     (case re_search r s of
        None \<Rightarrow> Inl AttributeError
      | Some t \<Rightarrow> (case groups_of t of g # gs \<Rightarrow> Inr g | [] \<Rightarrow> Inl IndexError))"

section \<open>The data model: Game and Server\<close>

text \<open>
  A Python dict is an association list with unique keys in insertion order: a lookup
  is \<open>map_of\<close>, a store is \<open>AList.update\<close> (in place for a known key, at the end for
  a new one). Attributes that the class body does not create (\<^verbatim>\<open>pos\<close>,
  \<^verbatim>\<open>gametype\<close>, \<^verbatim>\<open>ctfscores\<close>, \<^verbatim>\<open>hostname\<close>) are options: reading an absent
  one is an AttributeError. A handicap is the string the pattern captured or the
  integer default 100.
\<close>

datatype hval = HStr string | HInt int

record Game =
  number :: int
  mapname :: string
  players :: "(string \<times> (string \<times> int)) list"
  pid :: "(string \<times> string) list"
  handicap :: "(string \<times> hval) list"
  teams :: "(string \<times> string) list"
  scores :: "(string \<times> string \<times> string \<times> string \<times> string) list"
  awards :: "(string \<times> (string \<times> int) list) list"
  itemsp :: "(string \<times> string list) list"
  killsp :: "(string \<times> string list) list"
  deathsp :: "(string \<times> int) list"
  ctf :: "(string \<times> (string \<times> int) list) list"
  ptime :: "(string \<times> int) list"
  time :: int
  validp :: "string list"
  quotes :: "(string \<times> string) list"
  weapons :: "(string \<times> (string \<times> int) list) list"
  pos :: "int option"
  gametype :: "char option"
  ctfscores :: "(char \<times> char) option"

record Server =
  stime :: int
  frags :: int
  gtype :: int
  hostname :: "string option"

text \<open>\<^verbatim>\<open>Game(number)\<close> and \<^verbatim>\<open>Server()\<close>. The field \<open>stime\<close> is
  \<^verbatim>\<open>Server.time\<close>.\<close>

definition Game_init :: "int \<Rightarrow> Game" where
  "Game_init n =
     \<lparr> number = n, mapname = [], players = [], pid = [], handicap = [], teams = [],
       scores = [], awards = [], itemsp = [], killsp = [(''<world>'', [])],
       deathsp = [], ctf = [], ptime = [], time = 0, validp = [], quotes = [],
       weapons = [], pos = None, gametype = None, ctfscores = None \<rparr>"

definition Server_init :: Server where
  "Server_init = \<lparr> stime = 0, frags = 0, gtype = 0, hostname = None \<rparr>"

definition MINPLAY :: rat where
  "MINPLAY = 1 / 2"

definition lookup :: "('k \<times> 'v) list \<Rightarrow> 'k \<Rightarrow> py_error + 'v" where
  "lookup d k = (case map_of d k of None \<Rightarrow> Inl KeyError | Some v \<Rightarrow> Inr v)"

fun py_min :: "int list \<Rightarrow> py_error + int" where
  "py_min [] = Inl ValueError"
| "py_min (x # xs) = Inr (fold min xs x)"

fun py_max :: "int list \<Rightarrow> py_error + int" where
  "py_max [] = Inl ValueError"
| "py_max (x # xs) = Inr (fold max xs x)"

subsection \<open>totime\<close>

text \<open>
  \<^verbatim>\<open>timedelta(minutes=m, seconds=s).seconds\<close>: the total is normalised into days and
  seconds of the day; more than 999999999 days is an OverflowError.
\<close>

definition timedelta_seconds :: "int \<Rightarrow> int \<Rightarrow> py_error + int" where
  "timedelta_seconds m s =
     (let total = 60 * m + s
      in if \<bar>total div 86400\<bar> > 999999999 then Inl OverflowError
         else Inr (total mod 86400))"

definition totime :: "string \<Rightarrow> py_error + int" where
  "totime s =
     (case py_split CHR '':'' s of
        [mins, secs] \<Rightarrow>
          bindE (py_int mins) (\<lambda>m. bindE (py_int secs) (\<lambda>sc. timedelta_seconds m sc))
      | _ \<Rightarrow> Inl ValueError)"

section \<open>The event parser\<close>

subsection \<open>lineProcInit\<close>

text \<open>Pattern \<^verbatim>\<open>mapname[\\]([\w]*)\<close>.\<close>

definition R_mapname :: "item list" where
  "R_mapname = lits ''mapname'' @ [Ch (Lit bsl) One, GOpen, Ch Word Star, GClose]"

definition lineProcInit :: "string \<Rightarrow> Game \<Rightarrow> Server \<Rightarrow> py_error + (Game \<times> Server)" where
  "lineProcInit line game server =
     bindE (search_group1 R_mapname line) (\<lambda>mname.
       let idx = py_find line ''sv_hostname'' + 11
       in bindE (py_index (py_split bsl (py_slice line idx (idx + 50))) 1) (\<lambda>hname.
            let idx2 = py_find line ''g_gametype''
            in bindE (py_index line (idx2 + 11)) (\<lambda>gt.
                 Inr (game\<lparr>mapname := mname, gametype := Some gt\<rparr>,
                      server\<lparr>hostname := Some hname,
                             gtype := (case py_int [gt] of Inr v \<Rightarrow> v | Inl e \<Rightarrow> 0)\<rparr>))))"

subsection \<open>lineProcKills\<close>

text \<open>Pattern \<^verbatim>\<open>\d:[\s](.*)\<close>, the fragger's nick.\<close>

definition R_kill :: "item list" where
  "R_kill = [Ch Digit One, Ch (Lit CHR '':'') One, Ch Space One, GOpen, Ch Dot Star, GClose]"

text \<open>
  The fields of a kill line: killer, victim, weapon. A failed search for the killer
  is caught by the first \<^verbatim>\<open>try\<close> and the line is left alone (\<open>None\<close>).
\<close>

definition kill_fields :: "string \<Rightarrow> (string \<times> string \<times> string) option" where
  "kill_fields this_line =
     (let k_idx = py_find this_line '' killed ''
      in case search_group1 R_kill (py_slice this_line 17 k_idx) of
           Inl e \<Rightarrow> None
         | Inr killer \<Rightarrow>
             let d_idx = k_idx + 6;
                 b_idx = py_rfind this_line '' b'';
                 killed = py_slice this_line (d_idx + 2) b_idx;
                 weapon = py_slice this_line (b_idx + 7 + 1) (- 1)
             in Some (killer, killed, weapon))"

text \<open>
  The first statement of the second \<^verbatim>\<open>try\<close>: the three-way branch on killer and
  victim. A KeyError leaves the game as it was.
\<close>

definition kill_branch :: "string \<Rightarrow> string \<Rightarrow> string \<Rightarrow> Game \<Rightarrow> py_error + Game" where
  "kill_branch killer killed weapon game =
     (if killer = killed then
        bindE (lookup (killsp game) killer) (\<lambda>l.
          Inr (game\<lparr>killsp := AList.update killer (l @ [weapon]) (killsp game)\<rparr>))
      else if killer \<noteq> ''<world>'' then
        bindE (lookup (weapons game) killer) (\<lambda>w.
          bindE (lookup w (py_slice weapon 0 3)) (\<lambda>n.
            Inr (game\<lparr>weapons :=
                   AList.update killer (AList.update (py_slice weapon 0 3) (n + 1) w)
                     (weapons game)\<rparr>)))
      else
        bindE (lookup (killsp game) ''<world>'') (\<lambda>l.
          Inr (game\<lparr>killsp := AList.update ''<world>'' (l @ [killed]) (killsp game)\<rparr>)))"

text \<open>The second statement: the victim's death counter.\<close>

definition kill_death :: "string \<Rightarrow> Game \<Rightarrow> py_error + Game" where
  "kill_death killed game =
     bindE (lookup (deathsp game) killed) (\<lambda>d.
       Inr (game\<lparr>deathsp := AList.update killed (d + 1) (deathsp game)\<rparr>))"

text \<open>
  The \<^verbatim>\<open>try\<close> / \<^verbatim>\<open>except: pass\<close> / \<^verbatim>\<open>else\<close>: an exception in the branch
  leaves everything as it was; an exception at the death counter keeps what the branch
  has already stored; only a run without exception increments \<^verbatim>\<open>server.frags\<close>.
\<close>

definition kill_update :: "string \<Rightarrow> string \<Rightarrow> string \<Rightarrow> Game \<Rightarrow> Server \<Rightarrow> Game \<times> Server" where
  "kill_update killer killed weapon game server =
     (case kill_branch killer killed weapon game of
        Inl e \<Rightarrow> (game, server)
      | Inr g1 \<Rightarrow>
          (case kill_death killed g1 of
             Inl e \<Rightarrow> (g1, server)
           | Inr g2 \<Rightarrow> (g2, server\<lparr>frags := frags server + 1\<rparr>)))"

definition lineProcKills :: "string \<Rightarrow> Game \<Rightarrow> Server \<Rightarrow> Game \<times> Server" where
  "lineProcKills this_line game server =
     (case kill_fields this_line of
        None \<Rightarrow> (game, server)
      | Some (killer, killed, weapon) \<Rightarrow> kill_update killer killed weapon game server)"

subsection \<open>lineProcCTF and lineProcAwards\<close>

definition lineProcCTF :: "string \<Rightarrow> Game \<Rightarrow> py_error + Game" where
  "lineProcCTF this_line game =
     bindE (py_index this_line 12) (\<lambda>p_id.
       bindE (py_index this_line 16) (\<lambda>event.
         Inr (case bindE (lookup (pid game) [p_id]) (\<lambda>name.
                     bindE (lookup (ctf game) name) (\<lambda>c.
                       bindE (lookup c [event]) (\<lambda>n.
                         Inr (game\<lparr>ctf :=
                                AList.update name (AList.update [event] (n + 1) c) (ctf game)\<rparr>)))) of
                Inl e \<Rightarrow> game
              | Inr g \<Rightarrow> g)))"

text \<open>Pattern \<^verbatim>\<open>\d:\s(\S*\s?\S*)\<close>, the player name.\<close>

definition R_award :: "item list" where
  "R_award = [Ch Digit One, Ch (Lit CHR '':'') One, Ch Space One,
              GOpen, Ch NonSpace Star, Ch Space Opt, Ch NonSpace Star, GClose]"

definition lineProcAwards :: "string \<Rightarrow> Game \<Rightarrow> py_error + Game" where
  "lineProcAwards this_line game =
     (let g_idx = py_find this_line '' gained ''
      in bindE (search_group1 R_award (py_slice this_line 0 g_idx)) (\<lambda>name.
           let award = py_slice this_line (g_idx + 12) (g_idx + 13)
           in Inr (case bindE (lookup (awards game) name) (\<lambda>a.
                          bindE (lookup a award) (\<lambda>n.
                            Inr (game\<lparr>awards :=
                                   AList.update name (AList.update award (n + 1) a) (awards game)\<rparr>))) of
                     Inl e \<Rightarrow> game
                   | Inr g \<Rightarrow> g)))"

subsection \<open>lineProcUserInfo\<close>

text \<open>Patterns \<^verbatim>\<open>Changed:[\s]([\d]*)\<close>, \<^verbatim>\<open>n\\([^\\]*)\<close>, \<^verbatim>\<open>\\hc\\(\d*)\<close>
  and \<^verbatim>\<open>\\t\\(\d)\<close>.\<close>

definition R_changed :: "item list" where
  "R_changed = lits ''Changed:'' @ [Ch Space One, GOpen, Ch Digit Star, GClose]"

definition R_name :: "item list" where
  "R_name = [Ch (Lit CHR ''n'') One, Ch (Lit bsl) One, GOpen, Ch NotBackslash Star, GClose]"

definition R_hc :: "item list" where
  "R_hc = [Ch (Lit bsl) One, Ch (Lit CHR ''h'') One, Ch (Lit CHR ''c'') One, Ch (Lit bsl) One,
           GOpen, Ch Digit Star, GClose]"

definition R_team :: "item list" where
  "R_team = [Ch (Lit bsl) One, Ch (Lit CHR ''t'') One, Ch (Lit bsl) One,
             GOpen, Ch Digit One, GClose]"

definition new_weapons :: "(string \<times> int) list" where
  "new_weapons =
     [(''SHO'', 0), (''GAU'', 0), (''MAC'', 0), (''GRE'', 0),
      (''ROC'', 0), (''PLA'', 0), (''RAI'', 0), (''LIG'', 0),
      (''BFG'', 0), (''TEL'', 0), (''NAI'', 0), (''CHA'', 0)]"

definition new_awards :: "(string \<times> int) list" where
  "new_awards = [(''A'', 0), (''C'', 0), (''D'', 0), (''E'', 0), (''I'', 0)]"

definition new_ctf :: "(string \<times> int) list" where
  "new_ctf = [(''0'', 0), (''1'', 0), (''2'', 0), (''3'', 0)]"

text \<open>
  The body of \<^verbatim>\<open>if new_name not in game.pid.values()\<close>. The only statement
  of the body that can raise is \<^verbatim>\<open>totime\<close>; nothing catches its exception, so
  the stores made before it are never observed and the model evaluates it first.
\<close>

definition register_player ::
  "string \<Rightarrow> string \<Rightarrow> string \<Rightarrow> hval \<Rightarrow> string \<Rightarrow> Game \<Rightarrow> py_error + Game" where
  "register_player this_line new_id new_name hc team game =
     (let c_idx = py_find this_line ''ClientU''
      in bindE (totime (py_slice this_line 0 c_idx)) (\<lambda>t.
           Inr (game\<lparr>itemsp := AList.update new_name [] (itemsp game),
                     killsp := AList.update new_name [] (killsp game),
                     deathsp := AList.update new_name 0 (deathsp game),
                     awards := AList.update new_name new_awards (awards game),
                     handicap := AList.update new_name hc (handicap game),
                     teams := AList.update new_name team (teams game),
                     ctf := AList.update new_name new_ctf (ctf game),
                     weapons := AList.update new_name new_weapons (weapons game),
                     ptime := AList.update new_name t (ptime game),
                     pid := AList.update new_id new_name (pid game)\<rparr>)))"

definition lineProcUserInfo :: "string \<Rightarrow> Game \<Rightarrow> py_error + Game" where
  "lineProcUserInfo this_line game =
     bindE (search_group1 R_changed this_line) (\<lambda>new_id.
       bindE (search_group1 R_name this_line) (\<lambda>new_name.
         let hc = (case search_group1 R_hc this_line of Inr h \<Rightarrow> HStr h | Inl e \<Rightarrow> HInt 100)
         in bindE (search_group1 R_team this_line) (\<lambda>team.
              if new_name \<notin> set (map snd (pid game))
              then register_player this_line new_id new_name hc team game
              else Inr game)))"

subsection \<open>lineProcQuotes and lineProcScores\<close>

definition lineProcQuotes :: "string \<Rightarrow> Game \<Rightarrow> py_error + Game" where
  "lineProcQuotes this_line game =
     (let parts = py_split CHR '':'' this_line
      in bindE (py_index parts 2) (\<lambda>name.
           bindE (py_index parts 3) (\<lambda>p3.
             Inr (game\<lparr>quotes := List.insert (name, py_slice p3 0 (- 1)) (quotes game)\<rparr>))))"

text \<open>
  The verbose pattern of the score lines, with the layout whitespace removed:
  \<^verbatim>\<open>(\s?\s?\s?\S*)[\s][^\s]*[\s](\S?\d*)[\s]+[^\s]*[\s](\d*)[\s]+[^\s]*[\s](\d*)\s(.*)\<close>.
\<close>

definition R_score :: "item list" where
  "R_score =
     [GOpen, Ch Space Opt, Ch Space Opt, Ch Space Opt, Ch NonSpace Star, GClose,
      Ch Space One, Ch NonSpace Star, Ch Space One,
      GOpen, Ch NonSpace Opt, Ch Digit Star, GClose,
      Ch Space Plus, Ch NonSpace Star, Ch Space One,
      GOpen, Ch Digit Star, GClose,
      Ch Space Plus, Ch NonSpace Star, Ch Space One,
      GOpen, Ch Digit Star, GClose,
      Ch Space One,
      GOpen, Ch Dot Star, GClose]"

definition score_fields ::
  "string \<Rightarrow> py_error + (string \<times> string \<times> string \<times> string \<times> string)" where
  "score_fields this_line =
     (case re_search R_score this_line of
        None \<Rightarrow> Inl AttributeError
      | Some t \<Rightarrow>
          (case groups_of t of
             [tm, score, ping, client, nick] \<Rightarrow> Inr (tm, score, ping, client, nick)
           | _ \<Rightarrow> Inl IndexError))"

text \<open>
  The validity test of a player. \<^verbatim>\<open>MINPLAY\<close> is the float 0.5 and the times are
  seconds of a day, so the float product is exact and the comparison is the one of
  the rationals.
\<close>

definition valid_player :: "int \<Rightarrow> int \<Rightarrow> int \<Rightarrow> bool" where
  "valid_player t p m = (of_int (t - p) > MINPLAY * of_int (t - m))"

definition lineProcScores :: "string \<Rightarrow> Game \<Rightarrow> py_error + Game" where
  "lineProcScores this_line game =
     bindE (score_fields this_line) (\<lambda>(tm, score, ping, client, nick).
       bindE (case pos game of None \<Rightarrow> Inl AttributeError | Some n \<Rightarrow> Inr n) (\<lambda>n.
         let g1 = game\<lparr>scores := scores game @ [(tm, score, ping, client, nick)],
                       players := AList.update nick (ping, n) (players game),
                       pos := Some (n + 1)\<rparr>
         in bindE (lookup (ptime g1) nick) (\<lambda>p.
              bindE (py_min (map snd (ptime g1))) (\<lambda>m.
                Inr (if valid_player (time g1) p m
                     then g1\<lparr>validp := validp g1 @ [nick]\<rparr>
                     else g1)))))"

section \<open>The game segmenter\<close>

subsection \<open>oneGameProc\<close>

text \<open>
  \<^verbatim>\<open>line.find(marker) > 0\<close>: a marker at index 0 does not count.
\<close>

definition has :: "string \<Rightarrow> string \<Rightarrow> bool" where
  "has line marker = (py_find line marker > 0)"

definition is_exit :: "string \<Rightarrow> bool" where
  "is_exit line =
     (has line ''Exit: Timelimit hit'' \<or> has line ''Exit: Fraglimit hit''
      \<or> has line ''Exit: Capturelimit hit'')"

text \<open>
  The loop over the shared line iterator. The lines that the loop has not consumed
  are returned with the result, since the caller goes on reading from the same
  iterator. \<open>valid_game\<close> starts as \<open>False\<close> in \<open>oneGameProc\<close>.
\<close>

fun oneGameLoop ::
  "string list \<Rightarrow> Game \<Rightarrow> Server \<Rightarrow> bool \<Rightarrow> py_error + (Game \<times> Server \<times> bool \<times> string list)" where
  "oneGameLoop [] game server valid_game = Inr (game, server, valid_game, [])"
| "oneGameLoop (line # lines) game server valid_game =
     (if has line '' Item: '' then oneGameLoop lines game server valid_game
      else if has line '' Kill: '' then
        (case lineProcKills line game server of
           (g, s) \<Rightarrow> oneGameLoop lines g s valid_game)
      else if has line '' CTF: '' then
        bindE (lineProcCTF line game) (\<lambda>g. oneGameLoop lines g server valid_game)
      else if has line '' Award: '' then
        bindE (lineProcAwards line game) (\<lambda>g. oneGameLoop lines g server valid_game)
      else if has line ''UserinfoChanged'' then
        bindE (lineProcUserInfo line game) (\<lambda>g. oneGameLoop lines g server valid_game)
      else if has line '' say:'' then
        bindE (lineProcQuotes line game) (\<lambda>g. oneGameLoop lines g server valid_game)
      else if has line '' score: '' then
        bindE (lineProcScores line game) (\<lambda>g. oneGameLoop lines g server valid_game)
      else if has line '' red:'' then
        bindE (py_index line 11) (\<lambda>a.
          bindE (py_index line 19) (\<lambda>b.
            oneGameLoop lines (game\<lparr>ctfscores := Some (a, b)\<rparr>) server valid_game))
      else if is_exit line then
        bindE (totime (py_slice line 0 (py_find line ''Exit''))) (\<lambda>t.
          oneGameLoop lines (game\<lparr>time := t\<rparr>) server True)
      else if has line '' ShutdownGame:'' then Inr (game, server, valid_game, lines)
      else oneGameLoop lines game server valid_game)"

definition oneGameProc ::
  "string list \<Rightarrow> Game \<Rightarrow> Server \<Rightarrow> py_error + (Game \<times> Server \<times> bool \<times> string list)" where
  "oneGameProc lines game server = oneGameLoop lines game server False"

subsection \<open>mainProcessing\<close>

text \<open>
  What \<open>mainProcessing\<close> does with a finished game: a valid game with at least one
  entry in \<^verbatim>\<open>game.players\<close> adds its played time to the server and joins the list.
\<close>

definition keep_game ::
  "Game \<Rightarrow> Server \<Rightarrow> bool \<Rightarrow> Game list \<Rightarrow> py_error + (Server \<times> Game list)" where
  "keep_game game server valid_game cgames =
     (if valid_game then
        (if length (players game) = 0 then Inr (server, cgames)
         else bindE (py_min (map snd (ptime game))) (\<lambda>m.
                Inr (server\<lparr>stime := stime server + time game - m\<rparr>, cgames @ [game])))
      else Inr (server, cgames))"

text \<open>
  The outer loop. On an init line \<^verbatim>\<open>next(lines)\<close> takes the following line off the
  iterator, whatever it is; at the end of the input it raises StopIteration.
\<close>

function mainLoop ::
  "string list \<Rightarrow> Server \<Rightarrow> Game list \<Rightarrow> int \<Rightarrow> py_error + (Server \<times> Game list)" where
  "mainLoop [] server cgames N = Inr (server, cgames)"
| "mainLoop (line # lines) server cgames N =
     (if has line '' InitGame: '' then
        (case lines of
           [] \<Rightarrow> Inl StopIteration
         | nxt # rest \<Rightarrow>
             if py_find nxt '' Warmup:'' = - 1 then
               (case lineProcInit line ((Game_init N)\<lparr>pos := Some 1\<rparr>) server of
                  Inl e \<Rightarrow> Inl e
                | Inr (g0, s0) \<Rightarrow>
                    (case oneGameProc rest g0 s0 of
                       Inl e \<Rightarrow> Inl e
                     | Inr (g1, s1, valid_game, rest') \<Rightarrow>
                         (case keep_game g1 s1 valid_game cgames of
                            Inl e \<Rightarrow> Inl e
                          | Inr (s2, cgames') \<Rightarrow> mainLoop rest' s2 cgames' (N + 1))))
             else mainLoop rest server cgames N)
      else mainLoop lines server cgames N)"
  by pat_completeness auto

text \<open>
  The inner loop returns a suffix of the lines it was given, so the outer loop
  terminates.
\<close>

termination mainLoop
proof -
  have len: "length rest \<le> length lines"
    if "oneGameLoop lines g s v = Inr (g', s', v', rest)"
    for lines g s v g' s' v' rest
    using that
  proof (induction lines arbitrary: g s v)
    case Nil
    then show ?case by simp
  next
    case (Cons line lines)
    have step: "\<And>g s v. oneGameLoop lines g s v = Inr (g', s', v', rest) \<Longrightarrow>
        length rest \<le> Suc (length lines)"
      using Cons.IH le_SucI by blast
    show ?case using Cons.prems
      by (auto simp: bindE_def split: if_splits sum.splits prod.splits intro: step)
  qed
  show ?thesis
    by (relation "measure (\<lambda>(lines, s, c, n). length lines)")
       (auto simp: oneGameProc_def dest!: len)
qed

definition mainProcessing :: "string list \<Rightarrow> py_error + (Server \<times> Game list)" where
  "mainProcessing lines = mainLoop lines Server_init [] 1"

section \<open>The aggregator\<close>

subsection \<open>player\_stats\<close>

text \<open>
  The list that \<open>player_stats\<close> returns, without its first entry (the list of key
  names): win, time, handicap, ping, frags, deaths, suics, wfrags, awards, weapon
  count and ctf events.
\<close>

record GameStats =
  gs_win :: int
  gs_time :: int
  gs_hand :: hval
  gs_ping :: string
  gs_frags :: int
  gs_deaths :: int
  gs_suics :: int
  gs_wfrags :: int
  gs_awards :: "int list"
  gs_weapon_count :: "int list"
  gs_ctf_events :: "int list"

definition wlist :: "string list" where
  "wlist =
     [''SHOTGUN'', ''GAUNTLET'', ''MACHINEGUN'', ''GRENADE'', ''GRENADE_SPLASH'',
      ''ROCKET'', ''ROCKET_SPLASH'', ''PLASMA'', ''PLASMA_SPLASH'', ''RAILGUN'',
      ''LIGHTNING'', ''BFG10K'', ''BFG10K_SPLASH'', ''TELEFRAG'', ''NAIL'', ''CHAIN'']"

fun mapE :: "('a \<Rightarrow> py_error + 'b) \<Rightarrow> 'a list \<Rightarrow> py_error + 'b list" where
  "mapE f [] = Inr []"
| "mapE f (x # xs) = bindE (f x) (\<lambda>y. bindE (mapE f xs) (\<lambda>ys. Inr (y # ys)))"

definition attr :: "'a option \<Rightarrow> py_error + 'a" where
  "attr a = (case a of None \<Rightarrow> Inl AttributeError | Some v \<Rightarrow> Inr v)"

text \<open>
  The win of a team game: the score of the player's team against the larger of the
  two scores. Only an IndexError (a team index outside the pair) is caught.
\<close>

definition team_win :: "Game \<Rightarrow> string \<Rightarrow> py_error + int" where
  "team_win game player_name =
     bindE (attr (ctfscores game)) (\<lambda>(a, b).
       bindE (lookup (teams game) player_name) (\<lambda>team.
         bindE (py_int team) (\<lambda>t.
           (case py_index [a, b] (t - 1) of
              Inl e \<Rightarrow> Inr 0
            | Inr c \<Rightarrow> Inr (if c = max a b then 1 else 0)))))"

definition ctf_events_of :: "Game \<Rightarrow> string \<Rightarrow> char \<Rightarrow> py_error + int list" where
  "ctf_events_of game player_name gt =
     (if gt = CHR ''4'' then
        bindE (lookup (ctf game) player_name) (\<lambda>c.
          bindE (lookup c ''0'') (\<lambda>flags_taken.
            bindE (lookup c ''2'') (\<lambda>flags_retrd.
              bindE (lookup c ''3'') (\<lambda>flag_fraggd.
                Inr [flags_taken, flags_retrd, flag_fraggd]))))
      else Inr [0, 0, 0])"

text \<open>
  \<open>player_stats\<close> returns \<open>None\<close> where the source returns 0 (the player is not
  valid in that game).
\<close>

definition player_stats :: "Game list \<Rightarrow> int \<Rightarrow> string \<Rightarrow> py_error + GameStats option" where
  "player_stats cgames game_number player_name =
     bindE (py_index cgames game_number) (\<lambda>game.
       if player_name \<notin> set (validp game) then Inr None
       else
         bindE (lookup (ptime game) player_name) (\<lambda>pt.
         bindE (lookup (players game) player_name) (\<lambda>(ping, rank).
         bindE (lookup (handicap game) player_name) (\<lambda>hand.
         bindE (attr (gametype game)) (\<lambda>gt.
         bindE (if gt \<noteq> CHR ''4'' \<and> gt \<noteq> CHR ''3''
                then Inr (if rank = 1 then 1 else 0)
                else team_win game player_name) (\<lambda>win.
         bindE (lookup (awards game) player_name) (\<lambda>aw.
         bindE (lookup (killsp game) ''<world>'') (\<lambda>wk.
         bindE (lookup (deathsp game) player_name) (\<lambda>deaths.
         bindE (lookup (killsp game) player_name) (\<lambda>sk.
         bindE (lookup (weapons game) player_name) (\<lambda>wp.
         bindE (mapE (\<lambda>w. lookup wp (py_slice w 0 3)) wlist) (\<lambda>weapon_count.
         bindE (ctf_events_of game player_name gt) (\<lambda>ctf_events.
           Inr (Some \<lparr> gs_win = win, gs_time = time game - pt, gs_hand = hand,
                       gs_ping = ping, gs_frags = sum_list (map snd wp),
                       gs_deaths = deaths, gs_suics = int (length sk),
                       gs_wfrags = int (count_list wk player_name),
                       gs_awards = map snd (sort_key fst aw),
                       gs_weapon_count = weapon_count,
                       gs_ctf_events = ctf_events \<rparr>))))))))))))))"

subsection \<open>csum and allnames\<close>

text \<open>
  Column-wise addition. The rows are lists or tuples, so the first test of the source
  is false; \<^verbatim>\<open>A[0]\<close> of an empty list and \<^verbatim>\<open>row[i]\<close> beyond a short row are
  IndexErrors.
\<close>

definition csum :: "int list list \<Rightarrow> py_error + int list" where
  "csum A =
     (case A of
        [] \<Rightarrow> Inl IndexError
      | a # rows \<Rightarrow>
          if \<exists>row \<in> set A. length row < length a then Inl IndexError
          else Inr (map (\<lambda>i. sum_list (map (\<lambda>row. row ! i) A)) [0..<length a]))"

text \<open>
  The set of all valid names. A loop over a Python set visits every member once, in
  an order that the language does not fix: \<open>iteration_order S names\<close> says that
  \<open>names\<close> is one of the orders in which \<open>S\<close> can be visited.
\<close>

definition allnames :: "Game list \<Rightarrow> string set" where
  "allnames cgames = set (concat (map validp cgames))"

definition iteration_order :: "'a set \<Rightarrow> 'a list \<Rightarrow> bool" where
  "iteration_order S names = (set names = S \<and> distinct names)"

subsection \<open>player\_stats\_total\<close>

text \<open>The career entry of one player, a dict in the source.\<close>

record Player =
  p_name :: string
  p_games :: int
  p_won :: int
  p_time :: int
  p_hand :: rat
  p_ping :: "rat list"
  p_frags :: int
  p_deaths :: int
  p_suics :: int
  p_wfrags :: int
  p_excellent :: int
  p_impressive :: int
  p_defence :: int
  p_capture :: int
  p_assist :: int
  p_weapons :: "int list"
  p_ctf :: "int list"

text \<open>The local variables of the loop over the games.\<close>

record Acc =
  a_win :: int
  a_time :: int
  a_hand :: "int list"
  a_ping :: "int list"
  a_weapon_count :: "int list list"
  a_ctf_events :: "int list list"
  a_frags :: int
  a_deaths :: int
  a_suics :: int
  a_wfrags :: int
  a_awards_a :: int
  a_awards_c :: int
  a_awards_d :: int
  a_awards_e :: int
  a_awards_i :: int

definition Acc_init :: Acc where
  "Acc_init =
     \<lparr> a_win = 0, a_time = 0, a_hand = [], a_ping = [], a_weapon_count = [],
       a_ctf_events = [], a_frags = 0, a_deaths = 0, a_suics = 0, a_wfrags = 0,
       a_awards_a = 0, a_awards_c = 0, a_awards_d = 0, a_awards_e = 0, a_awards_i = 0 \<rparr>"

definition hval_int :: "hval \<Rightarrow> py_error + int" where
  "hval_int h = (case h of HStr s \<Rightarrow> py_int s | HInt i \<Rightarrow> Inr i)"

text \<open>The \<^verbatim>\<open>else\<close> branch of the loop body: one valid game is added.\<close>

definition add_stats :: "GameStats \<Rightarrow> Acc \<Rightarrow> py_error + Acc" where
  "add_stats st acc =
     bindE (hval_int (gs_hand st)) (\<lambda>h.
     bindE (py_int (gs_ping st)) (\<lambda>pg.
     bindE (py_index (gs_awards st) 0) (\<lambda>aa.
     bindE (py_index (gs_awards st) 1) (\<lambda>ac.
     bindE (py_index (gs_awards st) 2) (\<lambda>ad.
     bindE (py_index (gs_awards st) 3) (\<lambda>ae.
     bindE (py_index (gs_awards st) 4) (\<lambda>ai.
       Inr (acc\<lparr> a_win := a_win acc + gs_win st,
                 a_time := a_time acc + gs_time st,
                 a_hand := a_hand acc @ [h],
                 a_ping := a_ping acc @ [pg],
                 a_frags := a_frags acc + gs_frags st,
                 a_deaths := a_deaths acc + gs_deaths st,
                 a_suics := a_suics acc + gs_suics st,
                 a_wfrags := a_wfrags acc + gs_wfrags st,
                 a_awards_a := a_awards_a acc + aa,
                 a_awards_c := a_awards_c acc + ac,
                 a_awards_d := a_awards_d acc + ad,
                 a_awards_e := a_awards_e acc + ae,
                 a_awards_i := a_awards_i acc + ai,
                 a_weapon_count := a_weapon_count acc @ [gs_weapon_count st],
                 a_ctf_events := a_ctf_events acc @ [gs_ctf_events st] \<rparr>))))))))"

text \<open>
  \<^verbatim>\<open>for i in range(len(cgames))\<close>, over the indices still to visit. Indexing the
  0 that \<open>player_stats\<close> returns for a player who is not valid would be a TypeError;
  the test before the call excludes it.
\<close>

fun games_loop :: "Game list \<Rightarrow> string \<Rightarrow> nat list \<Rightarrow> Acc \<Rightarrow> py_error + Acc" where
  "games_loop cgames name [] acc = Inr acc"
| "games_loop cgames name (i # is) acc =
     bindE (py_index cgames (int i)) (\<lambda>game.
       if name \<notin> set (validp game) then games_loop cgames name is acc
       else
         bindE (player_stats cgames (int i) name) (\<lambda>r.
           case r of
             None \<Rightarrow> Inl TypeError
           | Some st \<Rightarrow> bindE (add_stats st acc) (\<lambda>acc'. games_loop cgames name is acc')))"

text \<open>
  The entry of one player after the loop, or \<open>None\<close> for a player without frags.
  The means are floats in the source and rationals here.
\<close>

definition mean :: "int list \<Rightarrow> py_error + rat" where
  "mean xs =
     (if length xs = 0 then Inl ZeroDivisionError
      else Inr (of_int (sum_list xs) / of_nat (length xs)))"

definition one_player :: "string \<Rightarrow> Acc \<Rightarrow> py_error + Player option" where
  "one_player name acc =
     (if a_frags acc = 0 then Inr None
      else
        bindE (mean (a_hand acc)) (\<lambda>hand.
        bindE (py_min (a_ping acc)) (\<lambda>pmin.
        bindE (mean (a_ping acc)) (\<lambda>pmean.
        bindE (py_max (a_ping acc)) (\<lambda>pmax.
        bindE (csum (a_weapon_count acc)) (\<lambda>ws.
        bindE (csum (a_ctf_events acc)) (\<lambda>cs.
          Inr (Some \<lparr> p_name = name, p_games = int (length (a_hand acc)),
                      p_won = a_win acc, p_time = a_time acc, p_hand = hand,
                      p_ping = [of_int pmin, pmean, of_int pmax],
                      p_frags = a_frags acc, p_deaths = a_deaths acc,
                      p_suics = a_suics acc, p_wfrags = a_wfrags acc,
                      p_excellent = a_awards_e acc, p_impressive = a_awards_i acc,
                      p_defence = a_awards_d acc, p_capture = a_awards_c acc,
                      p_assist = a_awards_a acc, p_weapons = ws, p_ctf = cs \<rparr>))))))))"

fun names_loop :: "Game list \<Rightarrow> string list \<Rightarrow> py_error + Player list" where
  "names_loop cgames [] = Inr []"
| "names_loop cgames (name # names) =
     bindE (games_loop cgames name [0..<length cgames] Acc_init) (\<lambda>acc.
       bindE (one_player name acc) (\<lambda>p.
         bindE (names_loop cgames names) (\<lambda>ps.
           Inr (case p of None \<Rightarrow> ps | Some pl \<Rightarrow> pl # ps))))"

text \<open>
  \<open>player_stats_total names cgames\<close> is the result of the function when the loop
  \<^verbatim>\<open>for name in allnames(cgames)\<close> visits the set in the order \<open>names\<close>. The
  statements about it are made for every order.
\<close>

definition player_stats_total :: "string list \<Rightarrow> Game list \<Rightarrow> py_error + Player list" where
  "player_stats_total names cgames = names_loop cgames names"

section \<open>The ranker and the table projector\<close>

subsection \<open>results\_ordered\<close>

text \<open>
  A sort key is a list of rationals under the lexicographic order: a number is a
  one-element list, a list of numbers is itself, a string is the list of its character
  codes. This is the order Python uses within each of these types. The ratio keys are
  floats in the source; the model divides exactly, and a zero divisor raises
  ZeroDivisionError as the float division does. The float division rounds
  monotonically, so it can only make equal two keys that the model keeps apart, and
  only for counts of \<open>2 ^ 26\<close> and more; no statement below depends on the order of
  two entries.
\<close>

definition ratio :: "int \<Rightarrow> int \<Rightarrow> py_error + rat" where
  "ratio a b = (if b = 0 then Inl ZeroDivisionError else Inr (of_int a / of_int b))"

definition num :: "int \<Rightarrow> rat list" where
  "num i = [of_int i]"

text \<open>\<^verbatim>\<open>dic[option]\<close> for the keys of a player's dict.\<close>

definition player_key :: "string \<Rightarrow> Player \<Rightarrow> rat list option" where
  "player_key option dic =
     (if option = ''name'' then Some (map (\<lambda>c. of_nat (of_char c)) (p_name dic))
      else if option = ''games'' then Some (num (p_games dic))
      else if option = ''won'' then Some (num (p_won dic))
      else if option = ''time'' then Some (num (p_time dic))
      else if option = ''hand'' then Some [p_hand dic]
      else if option = ''ping'' then Some (p_ping dic)
      else if option = ''frags'' then Some (num (p_frags dic))
      else if option = ''deaths'' then Some (num (p_deaths dic))
      else if option = ''suics'' then Some (num (p_suics dic))
      else if option = ''wfrags'' then Some (num (p_wfrags dic))
      else if option = ''excellent'' then Some (num (p_excellent dic))
      else if option = ''impressive'' then Some (num (p_impressive dic))
      else if option = ''defence'' then Some (num (p_defence dic))
      else if option = ''capture'' then Some (num (p_capture dic))
      else if option = ''assist'' then Some (num (p_assist dic))
      else if option = ''weapons'' then Some (map of_int (p_weapons dic))
      else if option = ''ctf'' then Some (map of_int (p_ctf dic))
      else None)"

text \<open>
  \<^verbatim>\<open>sorted(R, key=..., reverse=...)\<close>: every key is computed first, in order; the
  sort is stable, and with \<^verbatim>\<open>reverse=True\<close> it is the reversed stable sort of the
  reversed list.
\<close>

definition py_sorted :: "('a \<Rightarrow> py_error + rat list) \<Rightarrow> bool \<Rightarrow> 'a list \<Rightarrow> py_error + 'a list" where
  "py_sorted key reverse R =
     bindE (mapE key R) (\<lambda>ks.
       Inr (if reverse then rev (map snd (sort_key fst (rev (zip ks R))))
            else map snd (sort_key fst (zip ks R))))"

definition ratio_key :: "int \<Rightarrow> int \<Rightarrow> py_error + rat list" where
  "ratio_key a b = bindE (ratio a b) (\<lambda>q. Inr [q])"

text \<open>
  The chain of \<^verbatim>\<open>if option == ...\<close>. \<open>Inr None\<close> is the plain
  \<^verbatim>\<open>return\<close> after the message about the ordering option.
\<close>

definition ordered :: "Player list \<Rightarrow> string \<Rightarrow> py_error + Player list option" where
  "ordered R option =
     (if option = ''frag_death_ratio'' then
        bindE (py_sorted (\<lambda>dic. ratio_key (p_frags dic) (p_deaths dic)) True R) (\<lambda>Rs. Inr (Some Rs))
      else if option = ''won_percentage'' then
        bindE (py_sorted (\<lambda>dic. ratio_key (p_won dic) (p_games dic)) True R) (\<lambda>Rs. Inr (Some Rs))
      else if option = ''frags_per_hour'' then
        bindE (py_sorted (\<lambda>dic. ratio_key (p_frags dic) (p_time dic)) True R) (\<lambda>Rs. Inr (Some Rs))
      else if option = ''name'' then
        bindE (py_sorted (\<lambda>dic. ratio_key (p_frags dic) (p_deaths dic)) False R) (\<lambda>Rs. Inr (Some Rs))
      else
        (case R of
           [] \<Rightarrow> Inl IndexError
         | r0 # rs \<Rightarrow>
             if player_key option r0 \<noteq> None then
               bindE (py_sorted (\<lambda>dic. case player_key option dic of
                                          None \<Rightarrow> Inl KeyError
                                        | Some k \<Rightarrow> Inr k) True R) (\<lambda>Rs. Inr (Some Rs))
             else Inr None))"

text \<open>
  \<open>maxnumber\<close> is an integer (the option \<^verbatim>\<open>MAXPLAYERS\<close>), so \<^verbatim>\<open>is_number\<close>
  holds. A count above the length is replaced by the length; a count that is not
  positive ends the function with a message and without a value (\<open>Inr None\<close>).
\<close>

definition results_ordered :: "Player list \<Rightarrow> string \<Rightarrow> int \<Rightarrow> py_error + Player list option" where
  "results_ordered R option maxnumber =
     (if maxnumber > int (length R) then
        bindE (ordered R option) (\<lambda>r. Inr (map_option (\<lambda>Rs. py_slice Rs 0 (int (length R))) r))
      else if maxnumber \<le> 0 then Inr None
      else
        bindE (ordered R option) (\<lambda>r. Inr (map_option (\<lambda>Rs. py_slice Rs 0 maxnumber) r)))"

subsection \<open>make\_stats\_table and make\_ctf\_table\<close>

text \<open>
  The numbers of one row of the ratio table, before \<^verbatim>\<open>str(round(..., 2))\<close>, which
  is not modelled. The divisions are float divisions in the source.
\<close>

definition stats_row :: "Player \<Rightarrow> py_error + (string \<times> rat list)" where
  "stats_row r =
     bindE (ratio (100 * p_won r) (p_games r)) (\<lambda>c1.
     bindE (ratio (p_frags r) (1 + p_deaths r)) (\<lambda>c2.
     bindE (ratio (3600 * p_frags r) (p_time r)) (\<lambda>c3.
     bindE (ratio (p_frags r) (p_games r)) (\<lambda>c4.
     bindE (ratio (3600 * p_deaths r) (p_time r)) (\<lambda>c5.
     bindE (ratio (p_deaths r) (p_games r)) (\<lambda>c6.
     bindE (ratio (3600 * (p_suics r + p_wfrags r)) (p_time r)) (\<lambda>c7.
     bindE (ratio (p_suics r + p_wfrags r) (p_games r)) (\<lambda>c8.
     bindE (ratio (100 * p_frags r) (1 + p_frags r + p_deaths r)) (\<lambda>c9.
       Inr (p_name r, [c1, c2, c3, c4, c5, c6, c7, c8, c9]))))))))))"

definition make_stats_table :: "Player list \<Rightarrow> py_error + (string \<times> rat list) list" where
  "make_stats_table R = mapE stats_row R"

text \<open>A row of the CTF table: the name, then the numbers.\<close>

definition make_ctf_table :: "Player list \<Rightarrow> (string \<times> int list) list" where
  "make_ctf_table R =
     map (\<lambda>r. (p_name r, p_ctf r @ [p_defence r, p_assist r, p_capture r])) R"

section \<open>Example logs\<close>

text \<open>
  A backslash cannot be written inside a string literal; \<open>join_bsl\<close> joins the
  pieces of a line with backslashes, and every line ends with a newline.
\<close>

definition join_bsl :: "string list \<Rightarrow> string" where
  "join_bsl xs = concat (map (\<lambda>x. x @ [bsl]) (butlast xs)) @ last xs @ [nl]"

definition l_init :: string where
  "l_init = join_bsl [''  0:00 InitGame: '', ''sv_hostname'', ''MyServer'',
                      ''g_gametype'', ''0'', ''mapname'', ''q3dm6'']"

definition l_conn :: string where
  "l_conn = ''  0:00 ClientConnect: 0'' @ [nl]"

definition l_ui_foo :: string where
  "l_ui_foo = join_bsl [''  0:01 ClientUserinfoChanged: 0 n'', ''Foo'', ''t'', ''1'',
                        ''model'', ''sarge'', ''hc'', ''100'']"

definition l_ui_bar :: string where
  "l_ui_bar = join_bsl [''  0:02 ClientUserinfoChanged: 1 n'', ''Bar'', ''t'', ''2'',
                        ''model'', ''sarge'', ''hc'', ''100'']"

definition l_kill :: string where
  "l_kill = ''  0:30 Kill: 0 1 7: Foo killed Bar by MOD_ROCKET_SPLASH'' @ [nl]"

definition l_exit :: string where
  "l_exit = '' 10:00 Exit: Timelimit hit.'' @ [nl]"

definition l_sc_foo :: string where
  "l_sc_foo = '' 10:00 score: 1  ping: 50  client: 0 Foo'' @ [nl]"

definition l_sc_bar :: string where
  "l_sc_bar = '' 10:00 score: 0  ping: 60  client: 1 Bar'' @ [nl]"

definition l_shut :: string where
  "l_shut = '' 10:00 ShutdownGame:'' @ [nl]"

text \<open>A complete deathmatch: two players, one rocket frag, time limit, scores.\<close>

definition ex_log :: "string list" where
  "ex_log = [l_init, l_conn, l_ui_foo, l_ui_bar, l_kill, l_exit, l_sc_foo, l_sc_bar, l_shut]"

text \<open>The game after the init line and the two user-info lines of \<open>ex_log\<close>.\<close>

definition ex_game :: Game where
  "ex_game =
     (case bindE (lineProcInit l_init ((Game_init 1)\<lparr>pos := Some 1\<rparr>) Server_init) (\<lambda>(g, s).
             bindE (lineProcUserInfo l_ui_foo g) (lineProcUserInfo l_ui_bar)) of
        Inr g \<Rightarrow> g
      | Inl e \<Rightarrow> Game_init 0)"

text \<open>A suicide, a fall, and a frag whose victim never sent a user-info line.\<close>

definition l_selfkill :: string where
  "l_selfkill = ''  0:40 Kill: 0 0 20: Foo killed Foo by MOD_SUICIDE'' @ [nl]"

definition l_worldkill :: string where
  "l_worldkill = ''  0:50 Kill: 1022 1 19: <world> killed Bar by MOD_FALLING'' @ [nl]"

definition l_kill_unknown :: string where
  "l_kill_unknown = ''  0:55 Kill: 0 2 7: Foo killed Baz by MOD_ROCKET'' @ [nl]"

text \<open>Foo sends a second user-info line, from client 5 and on the other team.\<close>

definition l_ui_foo2 :: string where
  "l_ui_foo2 = join_bsl [''  3:00 ClientUserinfoChanged: 5 n'', ''Foo'', ''t'', ''2'',
                         ''model'', ''sarge'', ''hc'', ''70'']"

text \<open>A capture-the-flag match: Foo takes the flag and captures it.\<close>

definition l_init_ctf :: string where
  "l_init_ctf = join_bsl [''  0:00 InitGame: '', ''sv_hostname'', ''MyServer'',
                          ''g_gametype'', ''4'', ''mapname'', ''oasago2'']"

definition l_ctf_taken :: string where
  "l_ctf_taken = ''  1:00 CTF: 0 2 0: Foo got the BLUE flag!'' @ [nl]"

definition l_ctf_capture :: string where
  "l_ctf_capture = ''  1:30 CTF: 0 2 1: Foo captured the BLUE flag!'' @ [nl]"

definition l_red :: string where
  "l_red = '' 10:00 red:1  blue:0'' @ [nl]"

definition ex_log_ctf :: "string list" where
  "ex_log_ctf = [l_init_ctf, l_conn, l_ui_foo, l_ui_bar, l_kill, l_ctf_taken, l_ctf_capture,
                 l_exit, l_red, l_sc_foo, l_sc_bar, l_shut]"

text \<open>A log whose first match has no shutdown line before the next init line.\<close>

definition ex_log_reinit :: "string \<Rightarrow> string list" where
  "ex_log_reinit l =
     [l_init, l_conn, l_ui_foo, l_ui_bar, l_init, l, l_exit, l_sc_foo, l_sc_bar, l_shut]"

text \<open>
  The career entries of a log: the segmenter, then the aggregator visiting the valid
  names in the order \<open>names\<close>.
\<close>

definition career :: "string list \<Rightarrow> string list \<Rightarrow> py_error + Player list" where
  "career names lines =
     bindE (mainProcessing lines) (\<lambda>(server, cgames). player_stats_total names cgames)"

text \<open>The games of \<open>ex_log\<close>.\<close>

definition ex_cgames :: "Game list" where
  "ex_cgames = (case mainProcessing ex_log of Inr (server, cgames) \<Rightarrow> cgames | Inl e \<Rightarrow> [])"

text \<open>
  Client 0 takes the name Baz. The name Foo is then bound to no client id, although
  it was seen in the match.
\<close>

definition l_ui_rename :: string where
  "l_ui_rename = join_bsl [''  2:00 ClientUserinfoChanged: 0 n'', ''Baz'', ''t'', ''1'',
                           ''model'', ''sarge'', ''hc'', ''100'']"

definition ex_game_renamed :: Game where
  "ex_game_renamed =
     (case lineProcUserInfo l_ui_rename ex_game of Inr g \<Rightarrow> g | Inl e \<Rightarrow> ex_game)"

text \<open>The entry that the aggregator makes for Foo from \<open>ex_log\<close>.\<close>

definition ex_player :: Player where
  "ex_player =
     \<lparr> p_name = ''Foo'', p_games = 1, p_won = 1, p_time = 599, p_hand = 100,
       p_ping = [50, 50, 50], p_frags = 1, p_deaths = 0, p_suics = 0, p_wfrags = 0,
       p_excellent = 0, p_impressive = 0, p_defence = 0, p_capture = 0, p_assist = 0,
       p_weapons = [0, 0, 0, 0, 0, 1, 1, 0, 0, 0, 0, 0, 0, 0, 0, 0], p_ctf = [0, 0, 0] \<rparr>"

text \<open>The games of \<open>ex_log_ctf\<close> and the entry made for Foo from them.\<close>

definition ex_cgames_ctf :: "Game list" where
  "ex_cgames_ctf = (case mainProcessing ex_log_ctf of Inr (server, cgames) \<Rightarrow> cgames | Inl e \<Rightarrow> [])"

definition ex_player_ctf :: Player where
  "ex_player_ctf = ex_player\<lparr>p_ctf := [1, 0, 0]\<rparr>"

text \<open>What follows an exit line in the running match \<open>ex_game\<close>.\<close>

definition ex_after_exit :: "py_error + (Game \<times> Server \<times> bool \<times> string list)" where
  "ex_after_exit = oneGameProc [l_exit, l_sc_foo, l_kill, l_shut, l_conn] ex_game Server_init"

section \<open>Notions used in the statements\<close>

text \<open>The counter of a player under a code, in a dict of dicts.\<close>

definition counter :: "(string \<times> (string \<times> int) list) list \<Rightarrow> string \<Rightarrow> string \<Rightarrow> int option" where
  "counter d name code = (case map_of d name of None \<Rightarrow> None | Some c \<Rightarrow> map_of c code)"

text \<open>
  A kill is recorded when none of its lookups fails: the victim has a death counter,
  and the entry that the branch on killer and victim touches exists.
\<close>

definition kill_recorded :: "string \<Rightarrow> string \<Rightarrow> string \<Rightarrow> Game \<Rightarrow> bool" where
  "kill_recorded killer killed weapon game =
     (map_of (deathsp game) killed \<noteq> None \<and>
      (if killer = killed then map_of (killsp game) killer \<noteq> None
       else if killer \<noteq> ''<world>'' then
         counter (weapons game) killer (py_slice weapon 0 3) \<noteq> None
       else map_of (killsp game) ''<world>'' \<noteq> None))"

text \<open>The markers that \<open>oneGameProc\<close> tests before the exit markers.\<close>

definition event_line :: "string \<Rightarrow> bool" where
  "event_line line =
     (has line '' Item: '' \<or> has line '' Kill: '' \<or> has line '' CTF: '' \<or> has line '' Award: ''
      \<or> has line ''UserinfoChanged'' \<or> has line '' say:'' \<or> has line '' score: ''
      \<or> has line '' red:'')"

text \<open>
  What a game contributes to a player's CTF vector under a code: the counter in a game
  of type 4, nothing in any other game.
\<close>

definition ctf_count :: "Game \<Rightarrow> string \<Rightarrow> string \<Rightarrow> int" where
  "ctf_count game name code =
     (if gametype game = Some CHR ''4''
      then (case counter (ctf game) name code of None \<Rightarrow> 0 | Some n \<Rightarrow> n)
      else 0)"

definition valid_games :: "Game list \<Rightarrow> string \<Rightarrow> Game list" where
  "valid_games cgames name = filter (\<lambda>game. name \<in> set (validp game)) cgames"

section \<open>Auxiliary facts\<close>

lemma bindE_InrD: "bindE m f = Inr y \<Longrightarrow> \<exists>x. m = Inr x \<and> f x = Inr y"
  by (cases m) (simp_all add: bindE_def)

lemma py_index_nth: "i < length xs \<Longrightarrow> py_index xs (int i) = Inr (xs ! i)"
  by (simp add: py_index_def)

lemma py_slice_all: "length xs = n \<Longrightarrow> py_slice xs 0 (int n) = xs"
  by (simp add: py_slice_def slice_bound_def)

lemma py_slice_take: "0 \<le> k \<Longrightarrow> k \<le> int (length xs) \<Longrightarrow> py_slice xs 0 k = take (nat k) xs"
  by (simp add: py_slice_def slice_bound_def min_def)

lemma py_min_Min: "xs \<noteq> [] \<Longrightarrow> py_min xs = Inr (Min (set xs))"
proof (cases xs)
  case Nil
  assume "xs \<noteq> []"
  with Nil show ?thesis by simp
next
  case (Cons a list)
  then show ?thesis using Min.set_eq_fold[of a list] by simp
qed

subsection \<open>The ranker keeps the length\<close>

lemma mapE_length: "mapE f xs = Inr ys \<Longrightarrow> length ys = length xs"
  by (induction xs arbitrary: ys) (auto simp: bindE_def split: sum.splits)

lemma py_sorted_length: "py_sorted k r R = Inr Rs \<Longrightarrow> length Rs = length R"
  by (auto simp: py_sorted_def bindE_def dest: mapE_length split: sum.splits if_splits)

lemma ordered_length: "ordered R opt = Inr (Some Rs) \<Longrightarrow> length Rs = length R"
  by (auto simp: ordered_def bindE_def dest: py_sorted_length
      split: sum.splits if_splits list.splits)

subsection \<open>The CTF events through the aggregator\<close>

lemma ctf_events_of_count:
  "ctf_events_of game name gt = Inr v \<Longrightarrow> gametype game = Some gt \<Longrightarrow>
   v = [ctf_count game name ''0'', ctf_count game name ''2'', ctf_count game name ''3'']"
  by (auto simp: ctf_events_of_def ctf_count_def counter_def lookup_def bindE_def
      split: if_splits option.splits)

lemma player_stats_ctf:
  assumes "player_stats cgames (int i) name = Inr (Some st)" and "i < length cgames"
  shows "gs_ctf_events st =
     [ctf_count (cgames ! i) name ''0'', ctf_count (cgames ! i) name ''2'',
      ctf_count (cgames ! i) name ''3'']"
proof -
  let ?g = "cgames ! i"
  from assms have valid: "name \<in> set (validp ?g)"
    by (auto simp: player_stats_def py_index_nth bindE_def split: if_splits)
  from assms valid obtain gt v where gt: "gametype ?g = Some gt"
    and ev: "ctf_events_of ?g name gt = Inr v" and st: "gs_ctf_events st = v"
    by (auto simp: player_stats_def py_index_nth attr_def dest!: bindE_InrD
        split: option.splits prod.splits)
  from ctf_events_of_count[OF ev gt] st show ?thesis by simp
qed

lemma add_stats_ctf:
  "add_stats st acc = Inr acc' \<Longrightarrow> a_ctf_events acc' = a_ctf_events acc @ [gs_ctf_events st]"
  by (auto simp: add_stats_def dest!: bindE_InrD)

lemma games_loop_ctf:
  "games_loop cgames name is acc = Inr acc' \<Longrightarrow> \<forall>i \<in> set is. i < length cgames \<Longrightarrow>
   a_ctf_events acc' =
     a_ctf_events acc @
       map (\<lambda>g. [ctf_count g name ''0'', ctf_count g name ''2'', ctf_count g name ''3''])
         (filter (\<lambda>g. name \<in> set (validp g)) (map (nth cgames) is))"
proof (induction "is" arbitrary: acc)
  case Nil
  then show ?case by simp
next
  case (Cons i "is")
  from Cons.prems(2) have i: "i < length cgames" and rest: "\<forall>j \<in> set is. j < length cgames"
    by auto
  show ?case
  proof (cases "name \<in> set (validp (cgames ! i))")
    case False
    with Cons.prems(1) i have "games_loop cgames name is acc = Inr acc'"
      by (simp add: py_index_nth bindE_def)
    from Cons.IH[OF this rest] False show ?thesis by simp
  next
    case True
    with Cons.prems(1) i obtain st acc1 where
      st: "player_stats cgames (int i) name = Inr (Some st)" and
      add: "add_stats st acc = Inr acc1" and
      loop: "games_loop cgames name is acc1 = Inr acc'"
      by (auto simp: py_index_nth bindE_def split: sum.splits option.splits)
    from Cons.IH[OF loop rest] add_stats_ctf[OF add] player_stats_ctf[OF st i] True
    show ?thesis by simp
  qed
qed

lemma one_player_ctf:
  "one_player name acc = Inr (Some p) \<Longrightarrow>
   p_name p = name \<and> csum (a_ctf_events acc) = Inr (p_ctf p)"
  by (auto simp: one_player_def dest!: bindE_InrD split: if_splits)

lemma csum_triples:
  "csum (map (\<lambda>g. [f g, h g, k g]) gs) = Inr v \<Longrightarrow>
   v = [sum_list (map f gs), sum_list (map h gs), sum_list (map k gs)]"
  by (cases gs) (auto simp: csum_def comp_def upt_rec split: if_splits)

lemma names_loop_mem:
  "names_loop cgames names = Inr R \<Longrightarrow> p \<in> set R \<Longrightarrow>
   \<exists>name acc. games_loop cgames name [0..<length cgames] Acc_init = Inr acc \<and>
              one_player name acc = Inr (Some p)"
proof (induction names arbitrary: R)
  case Nil
  then show ?case by simp
next
  case (Cons name names)
  from Cons.prems(1) obtain acc q ps where
    acc: "games_loop cgames name [0..<length cgames] Acc_init = Inr acc" and
    q: "one_player name acc = Inr q" and ps: "names_loop cgames names = Inr ps" and
    R: "R = (case q of None \<Rightarrow> ps | Some pl \<Rightarrow> pl # ps)"
    by (auto dest!: bindE_InrD)
  show ?case
  proof (cases "p \<in> set ps")
    case True
    from Cons.IH[OF ps True] show ?thesis .
  next
    case False
    with R Cons.prems(2) have "q = Some p" by (cases q) auto
    with acc q show ?thesis by blast
  qed
qed

section \<open>The claims\<close>

subsection \<open>C1: the weapon vector against the total frags\<close>

text \<open>
  Claim C1: for every player of the aggregated output, the components of the
  per-weapon frag vector sum to the player's total frags.

  The code does not keep this. \<open>player_stats\<close> reads the counters by the first three
  letters of the sixteen names of \<open>wlist\<close>, so the counters GRE, ROC, PLA and BFG are
  each read twice (for the weapon and for its splash), while the total is the sum of
  the twelve counters. In \<open>ex_log\<close> Foo makes one frag, by rocket splash: the total is
  1 and the vector sums to 2, in whichever order the two valid names are visited.
\<close>

theorem weapon_vector_sum_exceeds_frags:
  "map validp ex_cgames = [[''Foo'', ''Bar'']] \<and>
   iteration_order (allnames ex_cgames) [''Foo'', ''Bar''] \<and>
   iteration_order (allnames ex_cgames) [''Bar'', ''Foo''] \<and>
   map_sum id (map p_name) (career [''Foo'', ''Bar''] ex_log) = Inr [''Foo''] \<and>
   map_sum id (map p_frags) (career [''Foo'', ''Bar''] ex_log) = Inr [1] \<and>
   map_sum id (map p_weapons) (career [''Foo'', ''Bar''] ex_log)
     = Inr [[0, 0, 0, 0, 0, 1, 1, 0, 0, 0, 0, 0, 0, 0, 0, 0]] \<and>
   map_sum id (map (sum_list \<circ> p_weapons)) (career [''Foo'', ''Bar''] ex_log) = Inr [2] \<and>
   career [''Bar'', ''Foo''] ex_log = career [''Foo'', ''Bar''] ex_log"
  by code_simp

subsection \<open>C2: which kills count for the server\<close>

text \<open>
  Claim C2 says that only a regular kill increments \<^verbatim>\<open>server.frags\<close>. The
  increment is in the \<^verbatim>\<open>else\<close> of the \<^verbatim>\<open>try\<close>, which runs after each of the
  three branches: the suicide of Foo and the fall of Bar both count.
\<close>

theorem selfkill_increments_server_frags:
  "kill_fields l_selfkill = Some (''Foo'', ''Foo'', ''SUICIDE'') \<and>
   frags (snd (lineProcKills l_selfkill ex_game Server_init)) = frags Server_init + 1 \<and>
   kill_fields l_worldkill = Some (''<world>'', ''Bar'', ''FALLING'') \<and>
   frags (snd (lineProcKills l_worldkill ex_game Server_init)) = frags Server_init + 1"
  by code_simp

text \<open>
  Claim C2, amended: processing a kill line increments the server's total frags by one
  if and only if the kill is recorded, that is, its fields are found and none of its
  lookups fails, whether it is a regular kill, a self-kill or a world-kill; otherwise
  the counter is unchanged.
\<close>

theorem frags_incremented_iff_kill_recorded:
  "frags (snd (lineProcKills line g s)) =
     frags s + (case kill_fields line of
                  None \<Rightarrow> 0
                | Some (killer, killed, weapon) \<Rightarrow>
                    if kill_recorded killer killed weapon g then 1 else 0)"
  by (auto simp: lineProcKills_def kill_update_def kill_branch_def kill_death_def
        kill_recorded_def counter_def lookup_def bindE_def
      split: option.splits sum.splits if_splits prod.splits)

theorem frags_incremented_iff_kill_recorded_witness:
  "kill_fields l_kill = Some (''Foo'', ''Bar'', ''ROCKET_SPLASH'') \<and>
   kill_recorded ''Foo'' ''Bar'' ''ROCKET_SPLASH'' ex_game \<and>
   frags (snd (lineProcKills l_kill ex_game Server_init)) = frags Server_init + 1 \<and>
   kill_fields l_kill_unknown = Some (''Foo'', ''Baz'', ''ROCKET'') \<and>
   \<not> kill_recorded ''Foo'' ''Baz'' ''ROCKET'' ex_game \<and>
   frags (snd (lineProcKills l_kill_unknown ex_game Server_init)) = frags Server_init"
proof -
  have f1: "kill_fields l_kill = Some (''Foo'', ''Bar'', ''ROCKET_SPLASH'')" by code_simp
  have r1: "kill_recorded ''Foo'' ''Bar'' ''ROCKET_SPLASH'' ex_game" by code_simp
  have f2: "kill_fields l_kill_unknown = Some (''Foo'', ''Baz'', ''ROCKET'')" by code_simp
  have r2: "\<not> kill_recorded ''Foo'' ''Baz'' ''ROCKET'' ex_game" by code_simp
  show ?thesis
    using frags_incremented_iff_kill_recorded[of l_kill ex_game Server_init]
      frags_incremented_iff_kill_recorded[of l_kill_unknown ex_game Server_init]
      f1 r1 f2 r2
    by simp
qed

subsection \<open>C3: the result count of the ranker\<close>

text \<open>
  Claim C3 says that a count above the size of the set makes the ranking fail. The
  code replaces such a count by the size: 150 entries asked of a set of one give the
  one entry.
\<close>

theorem count_above_size_returns_result:
  "length [ex_player] = 1 \<and>
   results_ordered [ex_player] ''frags'' 150 = Inr (Some [ex_player])"
  by code_simp

text \<open>
  Claim C3, amended: a result count that is not positive makes the ranking step end
  without a result; a count above the size of the set is replaced by the size, so the
  whole ordered set is returned; a count from 1 to the size gives the first entries
  of the ordered set, that many.
\<close>

theorem count_clamped_or_rejected:
  "(maxnumber \<le> 0 \<longrightarrow> results_ordered R opt maxnumber = Inr None) \<and>
   (int (length R) < maxnumber \<longrightarrow> results_ordered R opt maxnumber = ordered R opt) \<and>
   (0 < maxnumber \<and> maxnumber \<le> int (length R) \<longrightarrow>
      results_ordered R opt maxnumber
        = map_sum id (map_option (take (nat maxnumber))) (ordered R opt))"
proof (intro conjI impI)
  assume "maxnumber \<le> 0"
  moreover from this have "\<not> maxnumber > int (length R)" by linarith
  ultimately show "results_ordered R opt maxnumber = Inr None"
    by (simp add: results_ordered_def)
next
  assume big: "int (length R) < maxnumber"
  show "results_ordered R opt maxnumber = ordered R opt"
  proof (cases "ordered R opt")
    case (Inl e)
    with big show ?thesis by (simp add: results_ordered_def bindE_def)
  next
    case (Inr r)
    show ?thesis
    proof (cases r)
      case None
      with Inr big show ?thesis by (simp add: results_ordered_def bindE_def)
    next
      case (Some Rs)
      with Inr have "length Rs = length R" by (simp add: ordered_length)
      then have "py_slice Rs 0 (int (length R)) = Rs" by (rule py_slice_all)
      with Inr Some big show ?thesis by (simp add: results_ordered_def bindE_def)
    qed
  qed
next
  assume rng: "0 < maxnumber \<and> maxnumber \<le> int (length R)"
  show "results_ordered R opt maxnumber
          = map_sum id (map_option (take (nat maxnumber))) (ordered R opt)"
  proof (cases "ordered R opt")
    case (Inl e)
    with rng show ?thesis by (simp add: results_ordered_def bindE_def)
  next
    case (Inr r)
    show ?thesis
    proof (cases r)
      case None
      with Inr rng show ?thesis by (simp add: results_ordered_def bindE_def)
    next
      case (Some Rs)
      with Inr have "length Rs = length R" by (simp add: ordered_length)
      with rng have "py_slice Rs 0 maxnumber = take (nat maxnumber) Rs"
        by (intro py_slice_take) auto
      with Inr Some rng show ?thesis by (simp add: results_ordered_def bindE_def)
    qed
  qed
qed

theorem count_clamped_or_rejected_witness:
  "results_ordered [ex_player] ''frags'' 0 = Inr None \<and>
   results_ordered [ex_player] ''frags'' 150 = ordered [ex_player] ''frags'' \<and>
   results_ordered [ex_player, ex_player] ''frags'' 1
     = map_sum id (map_option (take (nat 1))) (ordered [ex_player, ex_player] ''frags'')"
  using count_clamped_or_rejected[of 0 "[ex_player]" "''frags''"]
    count_clamped_or_rejected[of 150 "[ex_player]" "''frags''"]
    count_clamped_or_rejected[of 1 "[ex_player, ex_player]" "''frags''"]
  by simp

subsection \<open>C4: a kill line with an unknown name\<close>

text \<open>
  Claim C4: a kill line whose killer or victim is not registered is dropped as a whole;
  the game and the server's total frags stay as they were.

  The code does not keep this for an unknown victim. The branch on killer and victim
  stores its effect before the victim's death counter is looked up; the KeyError of
  that lookup is swallowed and the store remains. Baz never registered: the frag of
  Foo on Baz leaves Foo with one rocket frag more, and the server's frags unchanged.
\<close>

theorem unknown_victim_keeps_weapon_frag:
  "map_of (deathsp ex_game) ''Baz'' = None \<and>
   kill_fields l_kill_unknown = Some (''Foo'', ''Baz'', ''ROCKET'') \<and>
   counter (weapons ex_game) ''Foo'' ''ROC'' = Some 0 \<and>
   counter (weapons (fst (lineProcKills l_kill_unknown ex_game Server_init))) ''Foo'' ''ROC''
     = Some 1 \<and>
   frags (snd (lineProcKills l_kill_unknown ex_game Server_init)) = frags Server_init"
  by code_simp

subsection \<open>C5: what ends a match\<close>

text \<open>
  Claim C5 says that an exit line ends the dispatch of lines to the current game. In
  \<open>oneGameProc\<close> the exit branch stores the time and sets the flag, and the loop goes
  on; only the shutdown branch has a \<^verbatim>\<open>break\<close>. After the exit line of
  \<open>ex_after_exit\<close> the score line makes Foo valid and the kill line counts, and the
  loop stops at the shutdown line with one line left.
\<close>

theorem lines_after_exit_are_dispatched:
  "validp ex_game = [] \<and> frags Server_init = 0 \<and>
   map_sum id (validp \<circ> fst) ex_after_exit = Inr [''Foo''] \<and>
   map_sum id (frags \<circ> fst \<circ> snd) ex_after_exit = Inr 1 \<and>
   map_sum id (snd \<circ> snd) ex_after_exit = Inr (True, [l_conn])"
  by code_simp

text \<open>
  Claim C5, amended: a limit-reached exit line is not terminal. Processing it stores
  the leading timestamp as the match duration and marks the match valid, and the
  following lines are dispatched to the current game as before; a shutdown line is
  terminal: the loop returns the game, the server and the flag as they are, and the
  lines after it are left to the outer loop.
\<close>

theorem exit_continues_shutdown_ends:
  "\<not> event_line line \<Longrightarrow>
   (is_exit line \<longrightarrow>
      oneGameLoop (line # rest) g s v =
        bindE (totime (py_slice line 0 (py_find line ''Exit'')))
          (\<lambda>t. oneGameLoop rest (g\<lparr>time := t\<rparr>) s True)) \<and>
   (\<not> is_exit line \<and> has line '' ShutdownGame:'' \<longrightarrow>
      oneGameLoop (line # rest) g s v = Inr (g, s, v, rest))"
  by (simp add: event_line_def)

theorem exit_continues_shutdown_ends_witness:
  "\<not> event_line l_exit \<and> is_exit l_exit \<and>
   totime (py_slice l_exit 0 (py_find l_exit ''Exit'')) = Inr 600 \<and>
   oneGameLoop [l_exit, l_sc_foo] ex_game Server_init False =
     oneGameLoop [l_sc_foo] (ex_game\<lparr>time := 600\<rparr>) Server_init True \<and>
   \<not> event_line l_shut \<and> \<not> is_exit l_shut \<and> has l_shut '' ShutdownGame:'' \<and>
   oneGameLoop [l_shut, l_conn] ex_game Server_init True
     = Inr (ex_game, Server_init, True, [l_conn])"
proof -
  have e1: "\<not> event_line l_exit" by code_simp
  have e2: "is_exit l_exit" by code_simp
  have e3: "totime (py_slice l_exit 0 (py_find l_exit ''Exit'')) = Inr 600" by code_simp
  have s1: "\<not> event_line l_shut" by code_simp
  have s2: "\<not> is_exit l_shut" by code_simp
  have s3: "has l_shut '' ShutdownGame:''" by code_simp
  show ?thesis
    using exit_continues_shutdown_ends[OF e1, of "[l_sc_foo]" ex_game Server_init False]
      exit_continues_shutdown_ends[OF s1, of "[l_conn]" ex_game Server_init True]
      e1 e2 e3 s1 s2 s3
    by (simp add: bindE_def)
qed

subsection \<open>C6: a user-info line for a name already seen\<close>

text \<open>
  Claim C6 says that such a line updates the player's team and handicap and binds the
  client id to the name. In \<open>lineProcUserInfo\<close> every store is inside
  \<^verbatim>\<open>if new_name not in game.pid.values()\<close>: for a name already seen nothing is
  stored. Foo is on team 1 with handicap 100; the line from client 5 with team 2 and
  handicap 70 changes neither, and client 5 stays unbound.
\<close>

theorem seen_name_team_not_updated:
  "search_group1 R_changed l_ui_foo2 = Inr ''5'' \<and>
   search_group1 R_name l_ui_foo2 = Inr ''Foo'' \<and>
   search_group1 R_hc l_ui_foo2 = Inr ''70'' \<and>
   search_group1 R_team l_ui_foo2 = Inr ''2'' \<and>
   ''Foo'' \<in> set (map snd (pid ex_game)) \<and>
   map_of (teams ex_game) ''Foo'' = Some ''1'' \<and>
   map_of (handicap ex_game) ''Foo'' = Some (HStr ''100'') \<and>
   map_sum id teams (lineProcUserInfo l_ui_foo2 ex_game) = Inr (teams ex_game) \<and>
   map_sum id handicap (lineProcUserInfo l_ui_foo2 ex_game) = Inr (handicap ex_game) \<and>
   map_sum id pid (lineProcUserInfo l_ui_foo2 ex_game) = Inr [(''0'', ''Foo''), (''1'', ''Bar'')]"
  by code_simp

text \<open>
  Claim C6, amended: for every user-info line whose display name is, when the line is
  processed, the name bound to some client id in the id-to-name map of the current
  match (this is the test by which the code takes a name as already seen), and that
  carries a client id and a team, processing leaves the player's team and handicap as
  they were, and leaves the join offset and all per-player counters unchanged.
\<close>

theorem seen_name_leaves_player_data:
  assumes "search_group1 R_changed line = Inr new_id"
    and "search_group1 R_name line = Inr new_name"
    and "search_group1 R_team line = Inr team"
    and "new_name \<in> set (map snd (pid g))"
  shows "\<exists>g'. lineProcUserInfo line g = Inr g' \<and>
           teams g' = teams g \<and> handicap g' = handicap g \<and> ptime g' = ptime g \<and>
           weapons g' = weapons g \<and> deathsp g' = deathsp g \<and> killsp g' = killsp g \<and>
           awards g' = awards g \<and> ctf g' = ctf g \<and> itemsp g' = itemsp g"
  using assms by (simp add: lineProcUserInfo_def bindE_def)

theorem seen_name_leaves_player_data_witness:
  "search_group1 R_changed l_ui_foo2 = Inr ''5'' \<and>
   search_group1 R_name l_ui_foo2 = Inr ''Foo'' \<and>
   search_group1 R_team l_ui_foo2 = Inr ''2'' \<and>
   ''Foo'' \<in> set (map snd (pid ex_game)) \<and>
   (\<exists>g'. lineProcUserInfo l_ui_foo2 ex_game = Inr g' \<and>
      teams g' = teams ex_game \<and> handicap g' = handicap ex_game \<and>
      ptime g' = ptime ex_game \<and> weapons g' = weapons ex_game \<and>
      deathsp g' = deathsp ex_game \<and> killsp g' = killsp ex_game \<and>
      awards g' = awards ex_game \<and> ctf g' = ctf ex_game \<and> itemsp g' = itemsp ex_game)"
proof -
  have h1: "search_group1 R_changed l_ui_foo2 = Inr ''5''" by code_simp
  have h2: "search_group1 R_name l_ui_foo2 = Inr ''Foo''" by code_simp
  have h3: "search_group1 R_team l_ui_foo2 = Inr ''2''" by code_simp
  have h4: "''Foo'' \<in> set (map snd (pid ex_game))" by code_simp
  from seen_name_leaves_player_data[OF h1 h2 h3 h4] h1 h2 h3 h4 show ?thesis by blast
qed

text \<open>
  The hypothesis on the id-to-name map is needed. A name that was seen in the match
  and whose client id has since been bound to another name fails the test of the
  code, and the line is processed as for a new name. After client 0 has taken the name
  Baz, the second line of Foo sets the join offset of Foo from 1 to 180 and the team,
  the handicap and the counters of Foo anew.
\<close>

lemma unbound_name_is_registered_again:
  "pid ex_game_renamed = [(''0'', ''Baz''), (''1'', ''Bar'')] \<and>
   ''Foo'' \<notin> set (map snd (pid ex_game_renamed)) \<and>
   map_of (ptime ex_game_renamed) ''Foo'' = Some 1 \<and>
   map_of (teams ex_game_renamed) ''Foo'' = Some ''1'' \<and>
   map_sum id ptime (lineProcUserInfo l_ui_foo2 ex_game_renamed)
     = Inr [(''Foo'', 180), (''Bar'', 2), (''Baz'', 120)] \<and>
   map_sum id teams (lineProcUserInfo l_ui_foo2 ex_game_renamed)
     = Inr [(''Foo'', ''2''), (''Bar'', ''2''), (''Baz'', ''1'')] \<and>
   map_sum id pid (lineProcUserInfo l_ui_foo2 ex_game_renamed)
     = Inr [(''0'', ''Baz''), (''1'', ''Bar''), (''5'', ''Foo'')]"
  by code_simp

subsection \<open>C7: ratios with a zero divisor\<close>

text \<open>
  Claim C7: every ratio of the ranker and of the table projector guards a zero
  divisor; sorting by the frag/death ratio and by the name key is total when a player
  has no deaths.

  The code does not keep this in the ranker. \<open>make_stats_table\<close> divides the frags
  by one plus the deaths, but the keys \<^verbatim>\<open>frag_death_ratio\<close> and \<^verbatim>\<open>name\<close> of
  \<open>results_ordered\<close> divide by the deaths themselves. Foo of \<open>ex_log\<close> has one frag
  and no death: both sorts raise ZeroDivisionError, the table row is computed.
\<close>

theorem frag_death_ratio_sort_faults:
  "career [''Foo'', ''Bar''] ex_log = Inr [ex_player] \<and>
   career [''Bar'', ''Foo''] ex_log = Inr [ex_player] \<and>
   p_frags ex_player = 1 \<and> p_deaths ex_player = 0 \<and>
   results_ordered [ex_player] ''frag_death_ratio'' 150 = Inl ZeroDivisionError \<and>
   results_ordered [ex_player] ''name'' 150 = Inl ZeroDivisionError \<and>
   make_stats_table [ex_player] = Inr [(''Foo'', [100, 1, 3600 / 599, 1, 0, 0, 0, 0, 50])]"
  by code_simp

subsection \<open>C8: the validity of a player\<close>

text \<open>
  Claim C8: a score line adds the player to the valid-player list if and only if the
  time played, the match duration minus the join offset, is strictly greater than
  \<open>MINPLAY\<close> times the match duration minus the earliest join offset; a player whose
  time played is equal to that threshold is not added.
\<close>

theorem validity_is_strict:
  assumes "score_fields line = Inr (tm, score, ping, client, nick)"
    and "pos g = Some n"
    and "map_of (ptime g) nick = Some p"
  shows "\<exists>g'. lineProcScores line g = Inr g' \<and>
           validp g' =
             (if of_int (time g - p) > MINPLAY * of_int (time g - Min (snd ` set (ptime g)))
              then validp g @ [nick] else validp g) \<and>
           (of_int (time g - p) = MINPLAY * of_int (time g - Min (snd ` set (ptime g)))
              \<longrightarrow> validp g' = validp g)"
proof -
  from assms(3) have ne: "map snd (ptime g) \<noteq> []" by auto
  have m: "py_min (map snd (ptime g)) = Inr (Min (snd ` set (ptime g)))"
    using py_min_Min[OF ne] by simp
  show ?thesis
    using assms m by (simp add: lineProcScores_def bindE_def lookup_def valid_player_def)
qed

text \<open>
  Two instances. At the end of \<open>ex_log\<close> (duration 600, Foo joined at 1, the first
  join) Foo is valid. With a duration of 3, Bar, who joined at 2, has played 1, which
  is exactly one half of 3 - 1: Bar is not valid.
\<close>

theorem validity_is_strict_witness:
  "score_fields l_sc_foo = Inr ('' 10:00'', ''1'', ''50'', ''0'', ''Foo'') \<and>
   score_fields l_sc_bar = Inr ('' 10:00'', ''0'', ''60'', ''1'', ''Bar'') \<and>
   pos ex_game = Some 1 \<and> ptime ex_game = [(''Foo'', 1), (''Bar'', 2)] \<and>
   validp ex_game = [] \<and>
   (\<exists>g'. lineProcScores l_sc_foo (ex_game\<lparr>time := 600\<rparr>) = Inr g' \<and> validp g' = [''Foo'']) \<and>
   (\<exists>g'. lineProcScores l_sc_bar (ex_game\<lparr>time := 3\<rparr>) = Inr g' \<and> validp g' = [])"
proof -
  have f: "score_fields l_sc_foo = Inr ('' 10:00'', ''1'', ''50'', ''0'', ''Foo'')"
    by code_simp
  have b: "score_fields l_sc_bar = Inr ('' 10:00'', ''0'', ''60'', ''1'', ''Bar'')"
    by code_simp
  have n: "pos ex_game = Some 1" by code_simp
  have pt: "ptime ex_game = [(''Foo'', 1), (''Bar'', 2)]" by code_simp
  have v: "validp ex_game = []" by code_simp
  have n6: "pos (ex_game\<lparr>time := 600\<rparr>) = Some 1" using n by simp
  have n3: "pos (ex_game\<lparr>time := 3\<rparr>) = Some 1" using n by simp
  have p6: "map_of (ptime (ex_game\<lparr>time := 600\<rparr>)) ''Foo'' = Some 1" using pt by simp
  have p3: "map_of (ptime (ex_game\<lparr>time := 3\<rparr>)) ''Bar'' = Some 2" using pt by simp
  have foo: "\<exists>g'. lineProcScores l_sc_foo (ex_game\<lparr>time := 600\<rparr>) = Inr g' \<and> validp g' = [''Foo'']"
    using validity_is_strict[OF f n6 p6] pt v by (simp add: MINPLAY_def)
  have bar: "\<exists>g'. lineProcScores l_sc_bar (ex_game\<lparr>time := 3\<rparr>) = Inr g' \<and> validp g' = []"
    using validity_is_strict[OF b n3 p3] pt v by (simp add: MINPLAY_def)
  from f b n pt v foo bar show ?thesis by blast
qed

subsection \<open>C9: the CTF vector of a player\<close>

text \<open>
  Claim C9 says that the career entry has a total for each of the four CTF codes and
  that the CTF row shows four counters and three awards. \<open>player_stats\<close> takes the
  counters of the codes 0, 2 and 3 (flags taken, flags returned, flag carriers
  fragged), and only in a game of type 4: the vector has three components and the row
  six numbers. In \<open>ex_log_ctf\<close> Foo takes the flag once and captures it once; the
  counter of code 1 is in the game and in no entry.
\<close>

theorem ctf_vector_has_three_components:
  "map_sum id (map p_name) (career [''Foo'', ''Bar''] ex_log_ctf) = Inr [''Foo''] \<and>
   map_sum id (map p_ctf) (career [''Foo'', ''Bar''] ex_log_ctf) = Inr [[1, 0, 0]] \<and>
   map_sum id make_ctf_table (career [''Foo'', ''Bar''] ex_log_ctf)
     = Inr [(''Foo'', [1, 0, 0, 0, 0, 0])] \<and>
   career [''Bar'', ''Foo''] ex_log_ctf = career [''Foo'', ''Bar''] ex_log_ctf \<and>
   map (validp) ex_cgames_ctf = [[''Foo'', ''Bar'']] \<and>
   map gametype ex_cgames_ctf = [Some CHR ''4''] \<and>
   map ctf ex_cgames_ctf =
     [[(''Foo'', [(''0'', 1), (''1'', 1), (''2'', 0), (''3'', 0)]),
       (''Bar'', [(''0'', 0), (''1'', 0), (''2'', 0), (''3'', 0)])]]"
  by code_simp

text \<open>
  Claim C9, amended: each player's career entry carries a CTF total vector of three
  components, for the event codes 0, 2 and 3; each component is the sum, over the
  matches in which the player is valid, of the player's counter for that code when the
  match is of gametype 4 and of zero otherwise. The CTF row of the player is the name,
  these three totals and the defence, assist and capture award counts. This holds in
  whichever order the names are visited.
\<close>

theorem ctf_vector_sums_three_codes:
  assumes "player_stats_total names cgames = Inr R" and "p \<in> set R"
  shows "p_ctf p =
           map (\<lambda>code. sum_list (map (\<lambda>g. ctf_count g (p_name p) code)
                                   (valid_games cgames (p_name p))))
             [''0'', ''2'', ''3''] \<and>
         (p_name p, p_ctf p @ [p_defence p, p_assist p, p_capture p]) \<in> set (make_ctf_table R)"
proof -
  from assms obtain name acc where
    loop: "games_loop cgames name [0..<length cgames] Acc_init = Inr acc" and
    one: "one_player name acc = Inr (Some p)"
    unfolding player_stats_total_def by (blast dest: names_loop_mem)
  from one_player_ctf[OF one] have name: "p_name p = name"
    and cs: "csum (a_ctf_events acc) = Inr (p_ctf p)" by auto
  have "a_ctf_events acc =
      map (\<lambda>g. [ctf_count g name ''0'', ctf_count g name ''2'', ctf_count g name ''3''])
        (valid_games cgames name)"
    using games_loop_ctf[OF loop] by (simp add: Acc_init_def valid_games_def map_nth)
  with cs have "p_ctf p =
      [sum_list (map (\<lambda>g. ctf_count g name ''0'') (valid_games cgames name)),
       sum_list (map (\<lambda>g. ctf_count g name ''2'') (valid_games cgames name)),
       sum_list (map (\<lambda>g. ctf_count g name ''3'') (valid_games cgames name))]"
    by (simp add: csum_triples)
  moreover from assms(2) have
    "(p_name p, p_ctf p @ [p_defence p, p_assist p, p_capture p]) \<in> set (make_ctf_table R)"
    by (force simp: make_ctf_table_def)
  ultimately show ?thesis using name by simp
qed

theorem ctf_vector_sums_three_codes_witness:
  "iteration_order (allnames ex_cgames_ctf) [''Foo'', ''Bar''] \<and>
   player_stats_total [''Foo'', ''Bar''] ex_cgames_ctf = Inr [ex_player_ctf] \<and>
   ex_player_ctf \<in> set [ex_player_ctf] \<and>
   p_ctf ex_player_ctf =
     map (\<lambda>code. sum_list (map (\<lambda>g. ctf_count g (p_name ex_player_ctf) code)
                             (valid_games ex_cgames_ctf (p_name ex_player_ctf))))
       [''0'', ''2'', ''3''] \<and>
   (p_name ex_player_ctf,
    p_ctf ex_player_ctf @ [p_defence ex_player_ctf, p_assist ex_player_ctf, p_capture ex_player_ctf])
     \<in> set (make_ctf_table [ex_player_ctf])"
proof -
  have h0: "iteration_order (allnames ex_cgames_ctf) [''Foo'', ''Bar'']" by code_simp
  have h1: "player_stats_total [''Foo'', ''Bar''] ex_cgames_ctf = Inr [ex_player_ctf]"
    by code_simp
  have h2: "ex_player_ctf \<in> set [ex_player_ctf]" by simp
  from ctf_vector_sums_three_codes[OF h1 h2] h0 h1 h2 show ?thesis by blast
qed

subsection \<open>C10: the line after an init line\<close>

text \<open>
  Claim C10 says that in every line sequence the line after an init line is consumed
  by the warm-up check and never dispatched. That holds for an init line that the
  outer loop meets. Inside a match \<open>oneGameProc\<close> has no branch for an init line and
  no warm-up check: in \<open>ex_log_reinit\<close> the second init line comes before any
  shutdown line, and the line after it is dispatched. With the kill line in that place
  the server counts one frag and Bar one death; with a connect line, none.
\<close>

theorem line_after_init_in_match_is_dispatched:
  "ex_log_reinit l_kill ! 4 = l_init \<and> ex_log_reinit l_kill ! 5 = l_kill \<and>
   has l_init '' InitGame: '' \<and>
   map_sum id (frags \<circ> fst) (mainProcessing (ex_log_reinit l_kill)) = Inr 1 \<and>
   map_sum id (map deathsp \<circ> snd) (mainProcessing (ex_log_reinit l_kill))
     = Inr [[(''Foo'', 0), (''Bar'', 1)]] \<and>
   map_sum id (frags \<circ> fst) (mainProcessing (ex_log_reinit l_conn)) = Inr 0 \<and>
   map_sum id (map deathsp \<circ> snd) (mainProcessing (ex_log_reinit l_conn))
     = Inr [[(''Foo'', 0), (''Bar'', 0)]]"
  by code_simp

text \<open>
  Claim C10, amended: for every line sequence, the line immediately following an init
  line that the segmenter meets while it scans for a match start is consumed by the
  warm-up check and is never dispatched to an event-parser rule, even when it does not
  signal a warm-up: the result of the run is the same whatever that line carries.
\<close>

theorem line_after_idle_init_is_skipped:
  assumes "has line '' InitGame: ''"
    and "py_find nxt '' Warmup:'' = - 1"
    and "py_find nxt' '' Warmup:'' = - 1"
  shows "mainLoop (line # nxt # rest) server cgames N
           = mainLoop (line # nxt' # rest) server cgames N"
  using assms by simp

text \<open>
  Two instances. A kill line after the init line is skipped. So is the user-info line
  of Foo: the match then has Bar as its only player, as if the line were a connect
  line.
\<close>

theorem line_after_idle_init_is_skipped_witness:
  "has l_init '' InitGame: '' \<and>
   py_find l_kill '' Warmup:'' = - 1 \<and> py_find l_conn '' Warmup:'' = - 1 \<and>
   py_find l_ui_foo '' Warmup:'' = - 1 \<and>
   mainLoop (l_init # l_kill # [l_ui_foo, l_ui_bar, l_exit, l_sc_foo, l_shut]) Server_init [] 1
     = mainLoop (l_init # l_conn # [l_ui_foo, l_ui_bar, l_exit, l_sc_foo, l_shut]) Server_init [] 1 \<and>
   mainLoop (l_init # l_ui_foo # [l_ui_bar, l_exit, l_sc_bar, l_shut]) Server_init [] 1
     = mainLoop (l_init # l_conn # [l_ui_bar, l_exit, l_sc_bar, l_shut]) Server_init [] 1 \<and>
   map_sum id (map pid \<circ> snd)
       (mainLoop (l_init # l_ui_foo # [l_ui_bar, l_exit, l_sc_bar, l_shut]) Server_init [] 1)
     = Inr [[(''1'', ''Bar'')]]"
proof -
  have h1: "has l_init '' InitGame: ''" by code_simp
  have h2: "py_find l_kill '' Warmup:'' = - 1" by code_simp
  have h3: "py_find l_conn '' Warmup:'' = - 1" by code_simp
  have h4: "py_find l_ui_foo '' Warmup:'' = - 1" by code_simp
  have r: "map_sum id (map pid \<circ> snd)
       (mainLoop (l_init # l_conn # [l_ui_bar, l_exit, l_sc_bar, l_shut]) Server_init [] 1)
     = Inr [[(''1'', ''Bar'')]]" by code_simp
  from line_after_idle_init_is_skipped[OF h1 h2 h3]
    line_after_idle_init_is_skipped[OF h1 h4 h3, of "[l_ui_bar, l_exit, l_sc_bar, l_shut]"
      Server_init "[]" 1] h1 h2 h3 h4 r
  show ?thesis by simp
qed

end
